theory Spec2Isabelle
  imports Complex_Main
begin

section \<open>Python values, errors and string primitives\<close>

text \<open>
  The integration is glue code between an external device client and the host framework.
  Every raise of the source is a value of \<open>error\<close>; a function that can raise returns
  \<open>error + 'a\<close> with \<open>Inl\<close> for the exception.
\<close>

datatype error =
    KeyError string
  | IndexError
  | ValueError
  | AttributeError
  | ClientError string

text \<open>Values carried by an event's data dictionary (the payload is dynamically typed).\<close>

datatype py_value = PyNone | PyBool bool | PyInt int | PyStr string

text \<open>
  A Python \<^verbatim>\<open>str\<close> is a \<open>string\<close> whose characters are the code points below 256.

  \<^verbatim>\<open>str(n)\<close> for a Python int, as the f-strings of the constructors call it: the decimal
  digits with a leading minus sign, and ValueError when there are more digits than the
  interpreter's limit on int/str conversions (4300 by default).
\<close>

definition int_max_str_digits :: nat where
  "int_max_str_digits = 4300"

definition digit_char :: "nat \<Rightarrow> char" where
  "digit_char d = char_of (48 + d mod 10)"

fun nat_digits :: "nat \<Rightarrow> string" where
  "nat_digits n = (if n < 10 then [digit_char n] else nat_digits (n div 10) @ [digit_char (n mod 10)])"

declare nat_digits.simps [simp del]

definition decimal :: "int \<Rightarrow> string" where
  "decimal i = (if i < 0 then CHR ''-'' # nat_digits (nat (- i)) else nat_digits (nat i))"

definition py_str_int :: "int \<Rightarrow> error + string" where
  "py_str_int i =
     (if int_max_str_digits < length (nat_digits (nat \<bar>i\<bar>)) then Inl ValueError
      else Inr (decimal i))"

text \<open>
  \<^verbatim>\<open>s.split("_")\<close>: the pieces between the separators, empty pieces kept; the result is
  never the empty list.
\<close>

fun py_split :: "char \<Rightarrow> string \<Rightarrow> string list" where
  "py_split sep [] = [[]]"
| "py_split sep (c # cs) =
     (if c = sep then [] # py_split sep cs
      else (case py_split sep cs of [] \<Rightarrow> [[c]] | w # ws \<Rightarrow> (c # w) # ws))"

text \<open>\<^verbatim>\<open>xs[i]\<close> for a non-negative literal index: IndexError out of range.\<close>

definition py_index :: "'a list \<Rightarrow> nat \<Rightarrow> error + 'a" where
  "py_index xs i = (if i < length xs then Inr (xs ! i) else Inl IndexError)"

text \<open>
  \<^verbatim>\<open>int(s)\<close> on a string. The characters stripped at both ends are the codes 9 to 13, 32,
  133 and 160 (the codes 28 to 31 are not stripped). What is left is an optional sign and
  then decimal digits (codes 48 to 57), at least one, where a single underscore may stand
  between two digits; more digits than the interpreter's limit, or anything else, raises
  ValueError.
\<close>

definition int_whitespace :: "char \<Rightarrow> bool" where
  "int_whitespace c =
     (let k = (of_char c :: nat) in (9 \<le> k \<and> k \<le> 13) \<or> k = 32 \<or> k = 133 \<or> k = 160)"

definition py_strip :: "string \<Rightarrow> string" where
  "py_strip s = rev (dropWhile int_whitespace (rev (dropWhile int_whitespace s)))"

definition digit_val :: "char \<Rightarrow> nat option" where
  "digit_val c =
     (let k = (of_char c :: nat) in if 48 \<le> k \<and> k \<le> 57 then Some (k - 48) else None)"

fun parse_digits :: "string \<Rightarrow> nat \<Rightarrow> nat option" where
  "parse_digits [] acc = Some acc"
| "parse_digits (c # cs) acc =
     (if c = CHR ''_'' then
        (case cs of
           [] \<Rightarrow> None
         | d # ds \<Rightarrow>
             (case digit_val d of None \<Rightarrow> None | Some v \<Rightarrow> parse_digits ds (10 * acc + v)))
      else
        (case digit_val c of None \<Rightarrow> None | Some v \<Rightarrow> parse_digits cs (10 * acc + v)))"

definition parse_unsigned :: "string \<Rightarrow> nat option" where
  "parse_unsigned s =
     (case s of
        [] \<Rightarrow> None
      | c # cs \<Rightarrow>
          (case digit_val c of
             None \<Rightarrow> None
           | Some v \<Rightarrow>
               if int_max_str_digits < length (filter (\<lambda>x. x \<noteq> CHR ''_'') s) then None
               else parse_digits cs v))"

definition py_int :: "string \<Rightarrow> error + int" where
  "py_int s =
     (case py_strip s of
        [] \<Rightarrow> Inl ValueError
      | c # cs \<Rightarrow>
          if c = CHR ''-'' then
            (case parse_unsigned cs of None \<Rightarrow> Inl ValueError | Some n \<Rightarrow> Inr (- int n))
          else if c = CHR ''+'' then
            (case parse_unsigned cs of None \<Rightarrow> Inl ValueError | Some n \<Rightarrow> Inr (int n))
          else
            (case parse_unsigned (c # cs) of None \<Rightarrow> Inl ValueError | Some n \<Rightarrow> Inr (int n)))"

section \<open>The device client and the host framework\<close>

text \<open>
  Dictionaries returned by the client are records whose fields are options: \<open>None\<close> is a
  key that is absent, so that a subscript \<^verbatim>\<open>d["k"]\<close> raises KeyError there and
  \<^verbatim>\<open>d.get("k", default)\<close> takes the default. Present values have the type the code uses
  them at.
\<close>

record user_dict =
  shortName :: "string option"

record node_dict =
  num :: "int option"
  user :: "user_dict option"

record settings_dict =
  name_key :: "string option"
  psk :: "string option"
  uplinkEnabled :: "bool option"
  downlinkEnabled :: "bool option"

record channel_dict =
  role :: "string option"
  index_key :: "int option"
  settings_key :: "settings_dict option"

text \<open>
  The client is external: the model holds what each of its calls answers. A call that
  returns nothing answers \<open>None\<close> when it returns and \<open>Some e\<close> when it raises \<open>e\<close>.
  \<^verbatim>\<open>send_text(value)\<close> without the keyword is the call with channel index \<open>None\<close>.
\<close>

record client =
  async_get_own_node :: "error + node_dict"
  async_get_channels :: "error + channel_dict list"
  get_own_node :: "error + node_dict"
  send_text :: "string \<Rightarrow> int option \<Rightarrow> error option"
  reboot :: "int \<Rightarrow> error option"

text \<open>
  What an operation does besides changing its entity, in the order it happens: the
  requests sent to the client, and the states written to the host by
  \<^verbatim>\<open>async_write_ha_state\<close> (the input value and the history attribute at that moment).
  The \<^verbatim>\<open>_LOGGER.info\<close> lines touch neither the entities nor the client and are left out.
\<close>

record history_entry =
  entry_from :: py_value
  entry_message :: py_value
  entry_timestamp :: real

datatype effect =
    SendText string "int option"
  | Reboot int
  | WriteHaState "string option" "history_entry list"

record 'c runtime_data =
  coordinator :: 'c
  runtime_client :: client

record 'c config_entry =
  entry_id :: string
  entry_runtime_data :: "'c runtime_data"

text \<open>
  An event of the bus: its data dictionary and the POSIX timestamp of
  \<^verbatim>\<open>event.time_fired\<close>.
\<close>

record event =
  data :: "string \<rightharpoonup> py_value"
  time_fired :: real

text \<open>
  The parts of the host and of \<^verbatim>\<open>entity.py\<close> that the handlers call and that are not part
  of these two files, taken as parameters: the two static \<^verbatim>\<open>build_unique_id\<close> methods, and
  \<^verbatim>\<open>er.async_get(hass).async_get_entity_id(DOMAIN, DOMAIN, unique_id)\<close> as a function of
  the unique ID (the constant \<^verbatim>\<open>DOMAIN\<close> is fixed).
\<close>

record host =
  GatewayChannelEntity_build_unique_id :: "string \<Rightarrow> int \<Rightarrow> int \<Rightarrow> string"
  GatewayDirectMessageEntity_build_unique_id :: "string \<Rightarrow> int \<Rightarrow> string"
  async_get_entity_id :: "string \<Rightarrow> string option"

section \<open>button.py\<close>

record button_entity_description =
  key :: string
  name :: string
  icon :: string

text \<open>
  \<^verbatim>\<open>MeshtasticNodeRebootButton\<close>. The base class \<^verbatim>\<open>MeshtasticNodeEntity\<close> is not part of these
  files: the record keeps the arguments its constructor receives, \<open>node_id\<close> being the
  \<^verbatim>\<open>_node_id\<close> that \<^verbatim>\<open>async_press\<close> reads.
\<close>

record 'c reboot_button =
  button_coordinator :: 'c
  button_gateway :: node_dict
  node_id :: int
  button_entity_description :: button_entity_description
  button_client :: client

definition MeshtasticNodeRebootButton_init ::
  "'c \<Rightarrow> button_entity_description \<Rightarrow> node_dict \<Rightarrow> int \<Rightarrow> client \<Rightarrow> 'c reboot_button" where
  "MeshtasticNodeRebootButton_init coord entity_description gateway nid cl =
     \<lparr>button_coordinator = coord, button_gateway = gateway, node_id = nid,
      button_entity_description = entity_description, button_client = cl\<rparr>"

text \<open>
  \<^verbatim>\<open>_build_buttons(nodes, runtime_data)\<close>: \<open>nodes\<close> is the dictionary's keys in iteration
  order. One button per key, every button with the one client of the runtime data.
\<close>

definition build_buttons :: "int list \<Rightarrow> 'c runtime_data \<Rightarrow> error + 'c reboot_button list" where
  "build_buttons nodes rd =
     (case get_own_node (runtime_client rd) of
        Inl e \<Rightarrow> Inl e
      | Inr gateway \<Rightarrow>
          Inr (map (\<lambda>nid. MeshtasticNodeRebootButton_init (coordinator rd)
                     \<lparr>key = ''reboot'', name = ''Reboot'', icon = ''mdi:restart''\<rparr>
                     gateway nid (runtime_client rd)) nodes))"

text \<open>
  \<^verbatim>\<open>async_press\<close>: the button afterwards, what was done, and the exception if the awaited
  call raised.
\<close>

definition async_press :: "'c reboot_button \<Rightarrow> 'c reboot_button \<times> effect list \<times> error option" where
  "async_press self = (self, [Reboot 5], reboot (button_client self) 5)"

section \<open>text.py\<close>

text \<open>
  \<^verbatim>\<open>MeshtasticChatMixin\<close> with the input value of \<^verbatim>\<open>TextEntity\<close>. \<open>history\<close> is the list
  \<^verbatim>\<open>_history\<close>; \<^verbatim>\<open>_attr_extra_state_attributes["history"]\<close> is the same list object, updated
  in place, and so the same field. \<open>attr_native_value\<close> is \<open>None\<close> as long as nothing
  has assigned it.
\<close>

record chat_mixin =
  history :: "history_entry list"
  attr_native_value :: "string option"

text \<open>
  The attributes both chat classes have. The base classes \<^verbatim>\<open>GatewayChannelEntity\<close> and
  \<^verbatim>\<open>GatewayDirectMessageEntity\<close> are not part of these files: the records keep the
  arguments their constructors receive (\<open>gateway_entity\<close> is the
  \<^verbatim>\<open>suggested_object_id\<close> of the \<^verbatim>\<open>MockGatewayEntity\<close>), \<open>index\<close> being the \<^verbatim>\<open>_index\<close> the
  channel chat reads.
\<close>

record chat_entity = chat_mixin +
  config_entry_id :: string
  gateway_node :: int
  gateway_entity :: string
  has_logbook :: bool
  client :: client
  attr_name :: string
  attr_unique_id :: string

record channel_text = chat_entity +
  index :: int
  channel_name :: string
  settings :: settings_dict
  primary :: bool
  secondary :: bool

type_synonym dm_text = chat_entity

datatype text_entity = ChannelText channel_text | DirectMessageText dm_text

text \<open>
  \<^verbatim>\<open>self.async_write_ha_state()\<close> on an entity the host has added: the state is read from
  the input value. On an entity whose \<^verbatim>\<open>_attr_native_value\<close> was never assigned the read
  raises AttributeError and nothing is written; otherwise the value and the history
  attribute are written.
\<close>

definition async_write_ha_state :: "'a chat_mixin_scheme \<Rightarrow> effect list \<times> error option" where
  "async_write_ha_state self =
     (case attr_native_value self of
        None \<Rightarrow> ([], Some AttributeError)
      | Some v \<Rightarrow> ([WriteHaState (Some v) (history self)], None))"

text \<open>
  \<^verbatim>\<open>_add_to_history\<close>: append, drop the first entry when there are more than 50, then
  write. The list is changed before the write, so it stays changed when the write raises.
\<close>

definition add_to_history ::
  "'a chat_mixin_scheme \<Rightarrow> py_value \<Rightarrow> py_value \<Rightarrow> real
     \<Rightarrow> 'a chat_mixin_scheme \<times> effect list \<times> error option" where
  "add_to_history self from_node message timestamp =
     (let appended = history self @
            [\<lparr>entry_from = from_node, entry_message = message, entry_timestamp = timestamp\<rparr>];
          kept = (if length appended > 50 then tl appended else appended);
          self' = self\<lparr>history := kept\<rparr>
      in (self', async_write_ha_state self'))"

text \<open>\<^verbatim>\<open>own_node.get("user", {}).get("shortName", "UNK")\<close>\<close>

definition short_name_of :: "node_dict \<Rightarrow> string" where
  "short_name_of own_node =
     (case user own_node of
        None \<Rightarrow> ''UNK''
      | Some u \<Rightarrow> (case shortName u of None \<Rightarrow> ''UNK'' | Some s \<Rightarrow> s))"

text \<open>
  The name of a channel chat before \<^verbatim>\<open>" Chat"\<close> is appended:
  \<^verbatim>\<open>name or ("Primary" if primary else "Secondary" if secondary else f"Channel {index}")\<close>.
  The f-string is evaluated only when it is reached.
\<close>

definition channel_label :: "string \<Rightarrow> bool \<Rightarrow> bool \<Rightarrow> int \<Rightarrow> error + string" where
  "channel_label nm prim sec idx =
     (if nm \<noteq> [] then Inr nm
      else if prim then Inr ''Primary''
      else if sec then Inr ''Secondary''
      else (case py_str_int idx of Inl e \<Rightarrow> Inl e | Inr s \<Rightarrow> Inr (''Channel '' @ s)))"

text \<open>
  The constructors, in the order of their statements: the client's own node, the base
  class and the mixin, the client, the name, the unique ID.
\<close>

definition MeshtasticChannelText_init ::
  "string \<Rightarrow> int \<Rightarrow> int \<Rightarrow> string \<Rightarrow> bool \<Rightarrow> bool \<Rightarrow> client \<Rightarrow> error + channel_text" where
  "MeshtasticChannelText_init entry gw idx nm prim sec cl =
     (case get_own_node cl of
        Inl e \<Rightarrow> Inl e
      | Inr own_node \<Rightarrow>
     (case channel_label nm prim sec idx of
        Inl e \<Rightarrow> Inl e
      | Inr label \<Rightarrow>
     (case py_str_int gw of
        Inl e \<Rightarrow> Inl e
      | Inr gw_str \<Rightarrow>
     (case py_str_int idx of
        Inl e \<Rightarrow> Inl e
      | Inr idx_str \<Rightarrow>
          Inr \<lparr>history = [], attr_native_value = None,
               config_entry_id = entry, gateway_node = gw,
               gateway_entity = ''gateway '' @ short_name_of own_node,
               has_logbook = False, client = cl,
               attr_name = label @ '' Chat'',
               attr_unique_id = entry @ ''_chat_channel_'' @ gw_str @ ''_'' @ idx_str,
               index = idx, channel_name = nm,
               settings = \<lparr>name_key = None, psk = Some '''', uplinkEnabled = Some True,
                            downlinkEnabled = Some True\<rparr>,
               primary = prim, secondary = sec\<rparr>))))"

definition MeshtasticDirectMessageText_init :: "string \<Rightarrow> int \<Rightarrow> client \<Rightarrow> error + dm_text" where
  "MeshtasticDirectMessageText_init entry gw cl =
     (case get_own_node cl of
        Inl e \<Rightarrow> Inl e
      | Inr own_node \<Rightarrow>
     (case py_str_int gw of
        Inl e \<Rightarrow> Inl e
      | Inr gw_str \<Rightarrow>
          Inr \<lparr>history = [], attr_native_value = None,
               config_entry_id = entry, gateway_node = gw,
               gateway_entity = ''gateway '' @ short_name_of own_node,
               has_logbook = False, client = cl,
               attr_name = ''Direct Message Chat'',
               attr_unique_id = entry @ ''_chat_dm_'' @ gw_str\<rparr>))"

text \<open>
  The body of the loop of \<^verbatim>\<open>async_setup_entry\<close> for one channel with a role other than
  \<^verbatim>\<open>"DISABLED"\<close>: the arguments are evaluated left to right, then the constructor runs.
\<close>

definition channel_entity_of ::
  "string \<Rightarrow> node_dict \<Rightarrow> client \<Rightarrow> channel_dict \<Rightarrow> string \<Rightarrow> error + channel_text" where
  "channel_entity_of entry gateway cl channel r =
     (case num gateway of
        None \<Rightarrow> Inl (KeyError ''num'')
      | Some gw \<Rightarrow>
     (case index_key channel of
        None \<Rightarrow> Inl (KeyError ''index'')
      | Some idx \<Rightarrow>
     (case settings_key channel of
        None \<Rightarrow> Inl (KeyError ''settings'')
      | Some st \<Rightarrow>
     (case name_key st of
        None \<Rightarrow> Inl (KeyError ''name'')
      | Some nm \<Rightarrow>
          MeshtasticChannelText_init entry gw idx nm (r = ''PRIMARY'') (r = ''SECONDARY'') cl))))"

fun channel_entities ::
  "string \<Rightarrow> node_dict \<Rightarrow> client \<Rightarrow> channel_dict list \<Rightarrow> text_entity list
     \<Rightarrow> error + text_entity list" where
  "channel_entities entry gateway cl [] entities = Inr entities"
| "channel_entities entry gateway cl (channel # channels) entities =
     (case role channel of
        None \<Rightarrow> Inl (KeyError ''role'')
      | Some r \<Rightarrow>
          if r \<noteq> ''DISABLED'' then
            (case channel_entity_of entry gateway cl channel r of
               Inl e \<Rightarrow> Inl e
             | Inr ent \<Rightarrow> channel_entities entry gateway cl channels (entities @ [ChannelText ent]))
          else channel_entities entry gateway cl channels entities)"

text \<open>
  \<^verbatim>\<open>async_setup_entry\<close> of text.py: the result is the list handed to
  \<^verbatim>\<open>async_add_entities\<close>, or the exception that ended the setup before that call.
\<close>

definition async_setup_entry :: "'c config_entry \<Rightarrow> error + text_entity list" where
  "async_setup_entry entry =
     (let cl = runtime_client (entry_runtime_data entry) in
      case async_get_own_node cl of
        Inl e \<Rightarrow> Inl e
      | Inr gateway \<Rightarrow>
     (case async_get_channels cl of
        Inl e \<Rightarrow> Inl e
      | Inr channels \<Rightarrow>
     (case channel_entities (entry_id entry) gateway cl channels [] of
        Inl e \<Rightarrow> Inl e
      | Inr entities \<Rightarrow>
     (case num gateway of
        None \<Rightarrow> Inl (KeyError ''num'')
      | Some gw \<Rightarrow>
     (case MeshtasticDirectMessageText_init (entry_id entry) gw cl of
        Inl e \<Rightarrow> Inl e
      | Inr dm \<Rightarrow> Inr (entities @ [DirectMessageText dm]))))))"

text \<open>
  \<^verbatim>\<open>async_set_value\<close> of the two classes: the entity afterwards, what was done, and the
  exception if one was raised. When the awaited send raises, the two lines after the
  \<^verbatim>\<open>await\<close> do not run.
\<close>

definition MeshtasticChannelText_async_set_value ::
  "channel_text \<Rightarrow> string \<Rightarrow> channel_text \<times> effect list \<times> error option" where
  "MeshtasticChannelText_async_set_value self v =
     (case send_text (client self) v (Some (index self)) of
        Some e \<Rightarrow> (self, [SendText v (Some (index self))], Some e)
      | None \<Rightarrow>
          (let self' = self\<lparr>attr_native_value := Some ''''\<rparr>;
               (written, outcome) = async_write_ha_state self'
           in (self', SendText v (Some (index self)) # written, outcome)))"

definition MeshtasticDirectMessageText_async_set_value ::
  "dm_text \<Rightarrow> string \<Rightarrow> dm_text \<times> effect list \<times> error option" where
  "MeshtasticDirectMessageText_async_set_value self v =
     (case send_text (client self) v None of
        Some e \<Rightarrow> (self, [SendText v None], Some e)
      | None \<Rightarrow>
          (let self' = self\<lparr>attr_native_value := Some ''''\<rparr>;
               (written, outcome) = async_write_ha_state self'
           in (self', SendText v None # written, outcome)))"

text \<open>
  The first half of \<^verbatim>\<open>_on_meshtastic_event\<close>: the unique ID rebuilt from the pieces of
  \<^verbatim>\<open>_attr_unique_id\<close>, looked up in the entity registry. \<open>Inl\<close> is the exception of
  \<^verbatim>\<open>[3]\<close> or of \<^verbatim>\<open>int\<close>, \<open>Inr None\<close> a unique ID the registry does not know.
\<close>

definition channel_entity_id :: "host \<Rightarrow> channel_text \<Rightarrow> error + string option" where
  "channel_entity_id h self =
     (case py_index (py_split CHR ''_'' (attr_unique_id self)) 0 of
        Inl e \<Rightarrow> Inl e
      | Inr p0 \<Rightarrow>
     (case py_index (py_split CHR ''_'' (attr_unique_id self)) 3 of
        Inl e \<Rightarrow> Inl e
      | Inr p3 \<Rightarrow>
     (case py_int p3 of
        Inl e \<Rightarrow> Inl e
      | Inr n \<Rightarrow>
          Inr (async_get_entity_id h
                 (GatewayChannelEntity_build_unique_id h p0 n (index self))))))"

definition dm_entity_id :: "host \<Rightarrow> dm_text \<Rightarrow> error + string option" where
  "dm_entity_id h self =
     (case py_index (py_split CHR ''_'' (attr_unique_id self)) 0 of
        Inl e \<Rightarrow> Inl e
      | Inr p0 \<Rightarrow>
     (case py_index (py_split CHR ''_'' (attr_unique_id self)) 3 of
        Inl e \<Rightarrow> Inl e
      | Inr p3 \<Rightarrow>
     (case py_int p3 of
        Inl e \<Rightarrow> Inl e
      | Inr n \<Rightarrow>
          Inr (async_get_entity_id h (GatewayDirectMessageEntity_build_unique_id h p0 n)))))"

text \<open>
  The condition of the \<^verbatim>\<open>if\<close>: the looked-up entity ID is truthy (neither \<^verbatim>\<open>None\<close> nor the
  empty string) and \<^verbatim>\<open>data.get("entity_id")\<close> equals it.
\<close>

definition event_matches :: "string option \<Rightarrow> event \<Rightarrow> bool" where
  "event_matches eid ev =
     (case eid of
        None \<Rightarrow> False
      | Some s \<Rightarrow> s \<noteq> [] \<and> data ev ''entity_id'' = Some (PyStr s))"

text \<open>\<^verbatim>\<open>data.get("from", "?")\<close> and \<^verbatim>\<open>data.get("message", "")\<close>\<close>

definition data_get :: "event \<Rightarrow> string \<Rightarrow> py_value \<Rightarrow> py_value" where
  "data_get ev k dflt = (case data ev k of None \<Rightarrow> dflt | Some v \<Rightarrow> v)"

definition MeshtasticChannelText_on_meshtastic_event ::
  "host \<Rightarrow> channel_text \<Rightarrow> event \<Rightarrow> channel_text \<times> effect list \<times> error option" where
  "MeshtasticChannelText_on_meshtastic_event h self ev =
     (case channel_entity_id h self of
        Inl e \<Rightarrow> (self, [], Some e)
      | Inr eid \<Rightarrow>
          if event_matches eid ev then
            add_to_history self (data_get ev ''from'' (PyStr ''?''))
              (data_get ev ''message'' (PyStr '''')) (time_fired ev)
          else (self, [], None))"

definition MeshtasticDirectMessageText_on_meshtastic_event ::
  "host \<Rightarrow> dm_text \<Rightarrow> event \<Rightarrow> dm_text \<times> effect list \<times> error option" where
  "MeshtasticDirectMessageText_on_meshtastic_event h self ev =
     (case dm_entity_id h self of
        Inl e \<Rightarrow> (self, [], Some e)
      | Inr eid \<Rightarrow>
          if event_matches eid ev then
            add_to_history self (data_get ev ''from'' (PyStr ''?''))
              (data_get ev ''message'' (PyStr '''')) (time_fired ev)
          else (self, [], None))"

section \<open>Sequences of operations\<close>

text \<open>
  The bus delivers events one at a time; an exception in a callback ends that callback
  only. The entity after a list of events is the fold of the handler over the list.
\<close>

definition channel_after_events :: "host \<Rightarrow> channel_text \<Rightarrow> event list \<Rightarrow> channel_text" where
  "channel_after_events h self evs =
     foldl (\<lambda>s ev. fst (MeshtasticChannelText_on_meshtastic_event h s ev)) self evs"

definition dm_after_events :: "host \<Rightarrow> dm_text \<Rightarrow> event list \<Rightarrow> dm_text" where
  "dm_after_events h self evs =
     foldl (\<lambda>s ev. fst (MeshtasticDirectMessageText_on_meshtastic_event h s ev)) self evs"

text \<open>The two operations a chat entity undergoes after its construction.\<close>

datatype chat_op = Submit string | Incoming event

fun channel_apply :: "host \<Rightarrow> channel_text \<Rightarrow> chat_op \<Rightarrow> channel_text" where
  "channel_apply h self (Submit v) = fst (MeshtasticChannelText_async_set_value self v)"
| "channel_apply h self (Incoming ev) = fst (MeshtasticChannelText_on_meshtastic_event h self ev)"

fun dm_apply :: "host \<Rightarrow> dm_text \<Rightarrow> chat_op \<Rightarrow> dm_text" where
  "dm_apply h self (Submit v) = fst (MeshtasticDirectMessageText_async_set_value self v)"
| "dm_apply h self (Incoming ev) = fst (MeshtasticDirectMessageText_on_meshtastic_event h self ev)"

text \<open>The history entry a matching event leaves, and the last \<open>k\<close> elements of a list.\<close>

definition entry_of_event :: "event \<Rightarrow> history_entry" where
  "entry_of_event ev =
     \<lparr>entry_from = data_get ev ''from'' (PyStr ''?''),
      entry_message = data_get ev ''message'' (PyStr ''''),
      entry_timestamp = time_fired ev\<rparr>"

definition last_n :: "nat \<Rightarrow> 'a list \<Rightarrow> 'a list" where
  "last_n k xs = drop (length xs - k) xs"

text \<open>The requests to the client among the things an operation did.\<close>

fun is_client_request :: "effect \<Rightarrow> bool" where
  "is_client_request (SendText v c) = True"
| "is_client_request (Reboot d) = True"
| "is_client_request (WriteHaState v h) = False"

definition client_requests :: "effect list \<Rightarrow> effect list" where
  "client_requests effects = filter is_client_request effects"

text \<open>Pressing a button \<open>n\<close> times in a row.\<close>

fun press_times :: "nat \<Rightarrow> 'c reboot_button \<Rightarrow> 'c reboot_button" where
  "press_times 0 self = self"
| "press_times (Suc n) self = press_times n (fst (async_press self))"

text \<open>The transmission settings in a settings dictionary.\<close>

definition transmission_settings :: "settings_dict \<Rightarrow> string option \<times> bool option \<times> bool option" where
  "transmission_settings st = (psk st, uplinkEnabled st, downlinkEnabled st)"

text \<open>
  What a channel chat entity has from the channel it was built for: the channel's index
  and name, and the two flags of its role.
\<close>

definition built_from :: "channel_text \<Rightarrow> channel_dict \<Rightarrow> bool" where
  "built_from c channel =
     (index_key channel = Some (index c) \<and>
      (case settings_key channel of None \<Rightarrow> False | Some st \<Rightarrow> name_key st = Some (channel_name c)) \<and>
      primary c = (role channel = Some ''PRIMARY'') \<and>
      secondary c = (role channel = Some ''SECONDARY''))"

text \<open>In the words of the specification: an entity that carries the transmission settings of a channel.\<close>

definition carries_settings_of :: "channel_text \<Rightarrow> channel_dict \<Rightarrow> bool" where
  "carries_settings_of c channel =
     (map_option transmission_settings (settings_key channel)
        = Some (transmission_settings (settings c)))"

text \<open>The channel chat entities of a list of entities, in order.\<close>

fun channel_texts :: "text_entity list \<Rightarrow> channel_text list" where
  "channel_texts [] = []"
| "channel_texts (ChannelText c # es) = c # channel_texts es"
| "channel_texts (DirectMessageText d # es) = channel_texts es"

text \<open>The channel chat entities a setup hands over; none when the setup raised.\<close>

definition setup_channel_texts :: "error + text_entity list \<Rightarrow> channel_text list" where
  "setup_channel_texts r = (case r of Inl e \<Rightarrow> [] | Inr es \<Rightarrow> channel_texts es)"

section \<open>Concrete inputs\<close>

definition gateway_example :: node_dict where
  "gateway_example = \<lparr>num = Some 7, user = Some \<lparr>shortName = Some ''GW''\<rparr>\<rparr>"

definition channels_example :: "channel_dict list" where
  "channels_example =
     [\<lparr>role = Some ''PRIMARY'', index_key = Some 0,
       settings_key = Some \<lparr>name_key = Some ''LongFast'', psk = Some ''AQ=='',
                            uplinkEnabled = Some False, downlinkEnabled = Some False\<rparr>\<rparr>,
      \<lparr>role = Some ''DISABLED'', index_key = Some 1, settings_key = None\<rparr>,
      \<lparr>role = Some ''SECONDARY'', index_key = Some 2,
       settings_key = Some \<lparr>name_key = Some '''', psk = Some ''c2VjcmV0'',
                            uplinkEnabled = Some True, downlinkEnabled = Some False\<rparr>\<rparr>]"

definition client_example :: client where
  "client_example =
     \<lparr>async_get_own_node = Inr gateway_example,
      async_get_channels = Inr channels_example,
      get_own_node = Inr gateway_example,
      send_text = (\<lambda>v c. None),
      reboot = (\<lambda>d. None)\<rparr>"

text \<open>A client whose radio link is down: every send raises.\<close>

definition client_down :: client where
  "client_down = client_example\<lparr>send_text := (\<lambda>v c. Some (ClientError ''not connected''))\<rparr>"

definition entry_example :: "unit config_entry" where
  "entry_example =
     \<lparr>entry_id = ''E1'',
      entry_runtime_data = \<lparr>coordinator = (), runtime_client = client_example\<rparr>\<rparr>"



definition host_example :: host where
  "host_example =
     \<lparr>GatewayChannelEntity_build_unique_id = (\<lambda>e n i. e @ ''_'' @ decimal n @ ''_'' @ decimal i),
      GatewayDirectMessageEntity_build_unique_id = (\<lambda>e n. e @ ''_'' @ decimal n @ ''_dm''),
      async_get_entity_id =
        (\<lambda>u. if u = ''E1_7_0'' then Some ''meshtastic.gateway_gw_channel_longfast''
             else if u = ''E1_7_dm'' then Some ''meshtastic.gateway_gw_direct_messages''
             else None)\<rparr>"

definition channel_example :: channel_text where
  "channel_example =
     \<lparr>history = [], attr_native_value = None,
      config_entry_id = ''E1'', gateway_node = 7, gateway_entity = ''gateway GW'',
      has_logbook = False, client = client_example,
      attr_name = ''LongFast Chat'', attr_unique_id = ''E1_chat_channel_7_0'',
      index = 0, channel_name = ''LongFast'',
      settings = \<lparr>name_key = None, psk = Some '''', uplinkEnabled = Some True,
                   downlinkEnabled = Some True\<rparr>,
      primary = True, secondary = False\<rparr>"

text \<open>The chat of channel 2, which the registry of \<open>host_example\<close> has no entity for.\<close>

definition secondary_example :: channel_text where
  "secondary_example =
     channel_example\<lparr>attr_name := ''Secondary Chat'', attr_unique_id := ''E1_chat_channel_7_2'',
       index := 2, channel_name := '''', primary := False, secondary := True\<rparr>"

definition dm_example :: dm_text where
  "dm_example =
     \<lparr>history = [], attr_native_value = None,
      config_entry_id = ''E1'', gateway_node = 7, gateway_entity = ''gateway GW'',
      has_logbook = False, client = client_example,
      attr_name = ''Direct Message Chat'', attr_unique_id = ''E1_chat_dm_7''\<rparr>"

text \<open>
  The direct-message chat of a gateway 8, which the registry of \<open>host_example\<close> has no
  entity for, and a host whose registry answers every lookup with the empty string.
\<close>

definition dm_unregistered_example :: dm_text where
  "dm_unregistered_example = dm_example\<lparr>gateway_node := 8, attr_unique_id := ''E1_chat_dm_8''\<rparr>"

definition host_blank_example :: host where
  "host_blank_example = host_example\<lparr>async_get_entity_id := (\<lambda>u. Some '''')\<rparr>"

definition blank_event :: event where
  "blank_event = \<lparr>data = [''entity_id'' \<mapsto> PyStr ''''], time_fired = 1700000000\<rparr>"

definition channel_event :: "string \<Rightarrow> real \<Rightarrow> event" where
  "channel_event msg t =
     \<lparr>data = [''entity_id'' \<mapsto> PyStr ''meshtastic.gateway_gw_channel_longfast'',
              ''from'' \<mapsto> PyInt 42, ''message'' \<mapsto> PyStr msg],
      time_fired = t\<rparr>"

definition dm_event :: "string \<Rightarrow> real \<Rightarrow> event" where
  "dm_event msg t =
     \<lparr>data = [''entity_id'' \<mapsto> PyStr ''meshtastic.gateway_gw_direct_messages'',
              ''from'' \<mapsto> PyInt 42, ''message'' \<mapsto> PyStr msg],
      time_fired = t\<rparr>"

text \<open>An event that names no entity.\<close>

definition anonymous_event :: event where
  "anonymous_event =
     \<lparr>data = [''from'' \<mapsto> PyInt 42, ''message'' \<mapsto> PyStr ''hi''], time_fired = 1700000000\<rparr>"

text \<open>Events that name the entity and carry neither sender nor text.\<close>

definition bare_channel_event :: event where
  "bare_channel_event =
     \<lparr>data = [''entity_id'' \<mapsto> PyStr ''meshtastic.gateway_gw_channel_longfast''],
      time_fired = 1700000000\<rparr>"

definition bare_dm_event :: event where
  "bare_dm_event =
     \<lparr>data = [''entity_id'' \<mapsto> PyStr ''meshtastic.gateway_gw_direct_messages''],
      time_fired = 1700000000\<rparr>"

section \<open>Facts about the string primitives\<close>

lemma digit_val_digit_char: "digit_val (digit_char d) = Some (d mod 10)"
  by (simp add: digit_char_def digit_val_def)

lemma digit_val_not_special:
  assumes "digit_val c \<noteq> None"
  shows "c \<noteq> CHR ''_''" and "c \<noteq> CHR ''-''" and "c \<noteq> CHR ''+''" and "\<not> int_whitespace c"
  using assms by (auto simp: digit_val_def int_whitespace_def Let_def split: if_splits)

lemma parse_digits_append:
  "\<forall>c \<in> set xs. digit_val c \<noteq> None \<Longrightarrow>
     parse_digits (xs @ ys) acc =
       (case parse_digits xs acc of None \<Rightarrow> None | Some a \<Rightarrow> parse_digits ys a)"
proof (induction xs arbitrary: acc)
  case Nil
  show ?case by simp
next
  case (Cons c xs)
  then have "digit_val c \<noteq> None" by simp
  then have "c \<noteq> CHR ''_''" by (rule digit_val_not_special)
  with Cons show ?case by (simp split: option.splits)
qed

lemma nat_digits_not_Nil: "nat_digits n \<noteq> []"
  by (subst nat_digits.simps) simp

lemma nat_digits_digit: "c \<in> set (nat_digits n) \<Longrightarrow> digit_val c \<noteq> None"
proof (induction n rule: nat_digits.induct)
  case (1 n)
  show ?case
  proof (cases "n < 10")
    case True
    with 1(2) show ?thesis
      by (subst (asm) nat_digits.simps) (simp add: digit_val_digit_char)
  next
    case False
    with 1(2) have "c \<in> set (nat_digits (n div 10)) \<or> c = digit_char (n mod 10)"
      by (subst (asm) nat_digits.simps) auto
    with 1(1) False show ?thesis
      by (auto simp: digit_val_digit_char)
  qed
qed

lemma parse_digits_nat_digits: "parse_digits (nat_digits n) 0 = Some n"
proof (induction n rule: nat_digits.induct)
  case (1 n)
  show ?case
  proof (cases "n < 10")
    case True
    then show ?thesis
      by (subst nat_digits.simps) (simp add: digit_val_digit_char digit_val_not_special(1))
  next
    case False
    with 1 have ih: "parse_digits (nat_digits (n div 10)) 0 = Some (n div 10)" by simp
    have d: "\<forall>c \<in> set (nat_digits (n div 10)). digit_val c \<noteq> None"
      using nat_digits_digit by blast
    have u: "digit_char (n mod 10) \<noteq> CHR ''_''"
      by (rule digit_val_not_special(1)) (simp add: digit_val_digit_char)
    from False show ?thesis
      by (subst nat_digits.simps) (simp add: parse_digits_append [OF d] ih u digit_val_digit_char)
  qed
qed

lemma nat_digits_no_underscore: "filter (\<lambda>x. x \<noteq> CHR ''_'') (nat_digits n) = nat_digits n"
proof -
  have "\<forall>c \<in> set (nat_digits n). c \<noteq> CHR ''_''"
    using nat_digits_digit digit_val_not_special(1) by blast
  then show ?thesis by simp
qed

lemma parse_unsigned_nat_digits:
  "parse_unsigned (nat_digits n) =
     (if int_max_str_digits < length (nat_digits n) then None else Some n)"
proof -
  obtain c cs where cs: "nat_digits n = c # cs"
    using nat_digits_not_Nil [of n] by (cases "nat_digits n") auto
  then have "c \<in> set (nat_digits n)" by simp
  then have dc: "digit_val c \<noteq> None" by (rule nat_digits_digit)
  then obtain v where v: "digit_val c = Some v" by auto
  from dc have "c \<noteq> CHR ''_''" by (rule digit_val_not_special)
  with v have "parse_digits (c # cs) 0 = parse_digits cs v" by simp
  with parse_digits_nat_digits [of n] cs have p: "parse_digits cs v = Some n" by simp
  have f: "filter (\<lambda>x. x \<noteq> CHR ''_'') (c # cs) = c # cs"
    using nat_digits_no_underscore [of n] cs by simp
  show ?thesis
    unfolding cs parse_unsigned_def f using v p cs by simp
qed

lemma decimal_not_Nil: "decimal i \<noteq> []"
  by (simp add: decimal_def nat_digits_not_Nil)

lemma decimal_chars:
  assumes "c \<in> set (decimal i)"
  shows "c = CHR ''-'' \<or> digit_val c \<noteq> None"
  using assms nat_digits_digit unfolding decimal_def by (auto split: if_splits)

lemma decimal_no_underscore: "CHR ''_'' \<notin> set (decimal i)"
proof
  assume "CHR ''_'' \<in> set (decimal i)"
  from decimal_chars [OF this] show False
    using digit_val_not_special(1) [of "CHR ''_''"] by auto
qed

lemma decimal_no_space: "c \<in> set (decimal i) \<Longrightarrow> \<not> int_whitespace c"
proof -
  assume "c \<in> set (decimal i)"
  from decimal_chars [OF this] show ?thesis
  proof
    assume "c = CHR ''-''"
    then show ?thesis by (simp add: int_whitespace_def)
  next
    assume "digit_val c \<noteq> None"
    then show ?thesis by (rule digit_val_not_special(4))
  qed
qed

lemma py_strip_id:
  assumes "s \<noteq> []" "\<not> int_whitespace (hd s)" "\<not> int_whitespace (last s)"
  shows "py_strip s = s"
proof -
  from assms have a: "dropWhile int_whitespace s = s"
    by (cases s) simp_all
  from assms have "rev s \<noteq> []" "\<not> int_whitespace (hd (rev s))"
    by (simp_all add: hd_rev)
  then have "dropWhile int_whitespace (rev s) = rev s"
    by (cases "rev s") simp_all
  with a show ?thesis by (simp add: py_strip_def)
qed

lemma py_strip_decimal: "py_strip (decimal i) = decimal i"
proof -
  have ne: "decimal i \<noteq> []" by (rule decimal_not_Nil)
  then have "hd (decimal i) \<in> set (decimal i)" "last (decimal i) \<in> set (decimal i)"
    by simp_all
  then have "\<not> int_whitespace (hd (decimal i))" "\<not> int_whitespace (last (decimal i))"
    by (simp_all add: decimal_no_space)
  with ne show ?thesis by (rule py_strip_id)
qed

lemma py_int_decimal:
  assumes "length (nat_digits (nat \<bar>i\<bar>)) \<le> int_max_str_digits"
  shows "py_int (decimal i) = Inr i"
proof (cases "i < 0")
  case True
  then have "nat \<bar>i\<bar> = nat (- i)" by simp
  with assms True show ?thesis
    unfolding py_int_def py_strip_decimal
    by (simp add: decimal_def parse_unsigned_nat_digits)
next
  case False
  then have n: "nat \<bar>i\<bar> = nat i" by simp
  obtain c cs where cs: "nat_digits (nat i) = c # cs"
    using nat_digits_not_Nil [of "nat i"] by (cases "nat_digits (nat i)") auto
  then have "c \<in> set (nat_digits (nat i))" by simp
  then have "digit_val c \<noteq> None" by (rule nat_digits_digit)
  then have "c \<noteq> CHR ''-''" "c \<noteq> CHR ''+''"
    by (rule digit_val_not_special)+
  moreover have "parse_unsigned (c # cs) = Some (nat i)"
    using parse_unsigned_nat_digits [of "nat i"] cs assms n by simp
  ultimately show ?thesis
    using False cs unfolding py_int_def py_strip_decimal
    by (simp add: decimal_def)
qed

text \<open>What \<^verbatim>\<open>str\<close> renders, \<^verbatim>\<open>int\<close> reads back.\<close>

lemma py_int_py_str_int: "py_str_int i = Inr s \<Longrightarrow> py_int s = Inr i"
  using py_int_decimal [of i] by (auto simp: py_str_int_def split: if_splits)

lemma py_str_int_no_underscore: "py_str_int i = Inr s \<Longrightarrow> CHR ''_'' \<notin> set s"
  using decimal_no_underscore [of i] by (auto simp: py_str_int_def split: if_splits)

lemma py_split_no_sep: "sep \<notin> set s \<Longrightarrow> py_split sep s = [s]"
  by (induction s) auto

lemma py_split_append:
  "sep \<notin> set s \<Longrightarrow> py_split sep (s @ sep # rest) = s # py_split sep rest"
  by (induction s) auto

section \<open>Facts about the chat entities\<close>

subsection \<open>The capped append\<close>

lemma history_add_to_history:
  "history (fst (add_to_history self f m t)) =
     (if length (history self) < 50
      then history self @ [\<lparr>entry_from = f, entry_message = m, entry_timestamp = t\<rparr>]
      else tl (history self @ [\<lparr>entry_from = f, entry_message = m, entry_timestamp = t\<rparr>]))"
  by (simp add: add_to_history_def Let_def)

lemma outcome_add_to_history:
  "snd (snd (add_to_history self f m t)) =
     (if attr_native_value self = None then Some AttributeError else None)"
  by (simp add: add_to_history_def async_write_ha_state_def Let_def split: option.splits)

lemma effects_add_to_history:
  "fst (snd (add_to_history self f m t)) =
     (case attr_native_value self of
        None \<Rightarrow> []
      | Some v \<Rightarrow> [WriteHaState (Some v) (history (fst (add_to_history self f m t)))])"
  by (simp add: add_to_history_def async_write_ha_state_def Let_def split: option.splits)

lemma add_to_history_native_value:
  "attr_native_value (fst (add_to_history self f m t)) = attr_native_value self"
  by (simp add: add_to_history_def Let_def)

lemma add_to_history_unique_id:
  "attr_unique_id (fst (add_to_history self f m t)) = attr_unique_id self"
  by (simp add: add_to_history_def Let_def)

lemma add_to_history_index:
  "index (fst (add_to_history self f m t)) = index self"
  by (simp add: add_to_history_def Let_def)

lemma last_n_snoc:
  "(if length (last_n 50 xs) < 50 then last_n 50 xs @ [x] else tl (last_n 50 xs @ [x]))
     = last_n 50 (xs @ [x])"
proof (cases "length xs < 50")
  case True
  then show ?thesis by (simp add: last_n_def)
next
  case False
  then have len: "length (last_n 50 xs) = 50" by (simp add: last_n_def)
  from False have ne: "drop (length xs - 50) xs \<noteq> []" by simp
  have "tl (last_n 50 xs @ [x]) = tl (drop (length xs - 50) xs) @ [x]"
    using ne by (simp add: last_n_def)
  also have "\<dots> = drop (Suc (length xs - 50)) xs @ [x]"
    by (simp add: drop_Suc tl_drop)
  also have "\<dots> = last_n 50 (xs @ [x])"
  proof -
    from False have "Suc (length xs - 50) = length xs - 49" by arith
    with False show ?thesis by (simp add: last_n_def)
  qed
  finally show ?thesis using len by simp
qed

lemma last_n_short: "length xs \<le> k \<Longrightarrow> last_n k xs = xs"
  by (simp add: last_n_def)

lemma length_last_n: "length (last_n k xs) = min (length xs) k"
  by (simp add: last_n_def)

lemma last_n_min: "last_n (min (length xs) k) xs = last_n k xs"
  by (simp add: last_n_def min_def)

lemma capped_append_length:
  "length xs \<le> 50 \<Longrightarrow> length (if length xs < 50 then xs @ [x] else tl (xs @ [x])) \<le> 50"
  by simp

subsection \<open>The event handlers\<close>

lemma entry_of_event_eta:
  "\<lparr>entry_from = data_get ev ''from'' (PyStr ''?''),
    entry_message = data_get ev ''message'' (PyStr ''''),
    entry_timestamp = time_fired ev\<rparr> = entry_of_event ev"
  by (simp add: entry_of_event_def)

lemma event_matches_Some:
  "event_matches (Some s) ev = (s \<noteq> [] \<and> data ev ''entity_id'' = Some (PyStr s))"
  by (simp add: event_matches_def)

lemma event_matches_None: "event_matches None ev = False"
  by (simp add: event_matches_def)

lemma channel_handler_history:
  "history (fst (MeshtasticChannelText_on_meshtastic_event h self ev)) =
     (case channel_entity_id h self of
        Inl e \<Rightarrow> history self
      | Inr eid \<Rightarrow>
          if event_matches eid ev then
            (if length (history self) < 50 then history self @ [entry_of_event ev]
             else tl (history self @ [entry_of_event ev]))
          else history self)"
  by (simp add: MeshtasticChannelText_on_meshtastic_event_def history_add_to_history
        entry_of_event_eta split: sum.splits)

lemma dm_handler_history:
  "history (fst (MeshtasticDirectMessageText_on_meshtastic_event h self ev)) =
     (case dm_entity_id h self of
        Inl e \<Rightarrow> history self
      | Inr eid \<Rightarrow>
          if event_matches eid ev then
            (if length (history self) < 50 then history self @ [entry_of_event ev]
             else tl (history self @ [entry_of_event ev]))
          else history self)"
  by (simp add: MeshtasticDirectMessageText_on_meshtastic_event_def history_add_to_history
        entry_of_event_eta split: sum.splits)

lemma channel_handler_frame:
  "attr_unique_id (fst (MeshtasticChannelText_on_meshtastic_event h self ev)) = attr_unique_id self"
  "index (fst (MeshtasticChannelText_on_meshtastic_event h self ev)) = index self"
  "attr_native_value (fst (MeshtasticChannelText_on_meshtastic_event h self ev))
     = attr_native_value self"
  by (simp_all add: MeshtasticChannelText_on_meshtastic_event_def add_to_history_unique_id
        add_to_history_index add_to_history_native_value split: sum.splits)

lemma dm_handler_frame:
  "attr_unique_id (fst (MeshtasticDirectMessageText_on_meshtastic_event h self ev)) = attr_unique_id self"
  "attr_native_value (fst (MeshtasticDirectMessageText_on_meshtastic_event h self ev))
     = attr_native_value self"
  by (simp_all add: MeshtasticDirectMessageText_on_meshtastic_event_def add_to_history_unique_id
        add_to_history_native_value split: sum.splits)

lemma channel_entity_id_handler:
  "channel_entity_id h (fst (MeshtasticChannelText_on_meshtastic_event h self ev)) =
     channel_entity_id h self"
  by (simp add: channel_entity_id_def channel_handler_frame cong: sum.case_cong)

lemma dm_entity_id_handler:
  "dm_entity_id h (fst (MeshtasticDirectMessageText_on_meshtastic_event h self ev)) =
     dm_entity_id h self"
  by (simp add: dm_entity_id_def dm_handler_frame cong: sum.case_cong)

lemma channel_after_events_snoc:
  "channel_after_events h self (evs @ [ev]) =
     fst (MeshtasticChannelText_on_meshtastic_event h (channel_after_events h self evs) ev)"
  by (simp add: channel_after_events_def)

lemma dm_after_events_snoc:
  "dm_after_events h self (evs @ [ev]) =
     fst (MeshtasticDirectMessageText_on_meshtastic_event h (dm_after_events h self evs) ev)"
  by (simp add: dm_after_events_def)

lemma channel_entity_id_after_events:
  "channel_entity_id h (channel_after_events h self evs) = channel_entity_id h self"
proof (induction evs rule: rev_induct)
  case Nil
  show ?case by (simp add: channel_after_events_def)
next
  case (snoc ev evs)
  then show ?case by (simp add: channel_after_events_snoc channel_entity_id_handler)
qed

lemma dm_entity_id_after_events:
  "dm_entity_id h (dm_after_events h self evs) = dm_entity_id h self"
proof (induction evs rule: rev_induct)
  case Nil
  show ?case by (simp add: dm_after_events_def)
next
  case (snoc ev evs)
  then show ?case by (simp add: dm_after_events_snoc dm_entity_id_handler)
qed

text \<open>
  After events that all name the entity's registered ID, the history is the last 50
  entries of what was there followed by the entries of the events.
\<close>

lemma channel_history_after_matching:
  assumes id: "channel_entity_id h self = Inr (Some s)" and s: "s \<noteq> []"
    and m: "\<forall>ev \<in> set evs. data ev ''entity_id'' = Some (PyStr s)"
    and len: "length (history self) \<le> 50"
  shows "history (channel_after_events h self evs) =
           last_n 50 (history self @ map entry_of_event evs)"
  using m
proof (induction evs rule: rev_induct)
  case Nil
  from len show ?case by (simp add: channel_after_events_def last_n_short)
next
  case (snoc ev evs)
  then have ih: "history (channel_after_events h self evs) =
      last_n 50 (history self @ map entry_of_event evs)" by simp
  from snoc.prems s have mev: "event_matches (Some s) ev" by (simp add: event_matches_Some)
  have "channel_entity_id h (channel_after_events h self evs) = Inr (Some s)"
    using id by (simp add: channel_entity_id_after_events)
  with mev have "history (channel_after_events h self (evs @ [ev])) =
      (if length (history (channel_after_events h self evs)) < 50
       then history (channel_after_events h self evs) @ [entry_of_event ev]
       else tl (history (channel_after_events h self evs) @ [entry_of_event ev]))"
    by (simp add: channel_after_events_snoc channel_handler_history)
  also have "\<dots> = last_n 50 ((history self @ map entry_of_event evs) @ [entry_of_event ev])"
    unfolding ih by (rule last_n_snoc)
  finally show ?case by simp
qed

lemma dm_history_after_matching:
  assumes id: "dm_entity_id h self = Inr (Some s)" and s: "s \<noteq> []"
    and m: "\<forall>ev \<in> set evs. data ev ''entity_id'' = Some (PyStr s)"
    and len: "length (history self) \<le> 50"
  shows "history (dm_after_events h self evs) =
           last_n 50 (history self @ map entry_of_event evs)"
  using m
proof (induction evs rule: rev_induct)
  case Nil
  from len show ?case by (simp add: dm_after_events_def last_n_short)
next
  case (snoc ev evs)
  then have ih: "history (dm_after_events h self evs) =
      last_n 50 (history self @ map entry_of_event evs)" by simp
  from snoc.prems s have mev: "event_matches (Some s) ev" by (simp add: event_matches_Some)
  have "dm_entity_id h (dm_after_events h self evs) = Inr (Some s)"
    using id by (simp add: dm_entity_id_after_events)
  with mev have "history (dm_after_events h self (evs @ [ev])) =
      (if length (history (dm_after_events h self evs)) < 50
       then history (dm_after_events h self evs) @ [entry_of_event ev]
       else tl (history (dm_after_events h self evs) @ [entry_of_event ev]))"
    by (simp add: dm_after_events_snoc dm_handler_history)
  also have "\<dots> = last_n 50 ((history self @ map entry_of_event evs) @ [entry_of_event ev])"
    unfolding ih by (rule last_n_snoc)
  finally show ?case by simp
qed

subsection \<open>Entities built by the constructors\<close>

lemma channel_unique_id_pieces:
  assumes e: "CHR ''_'' \<notin> set entry" and g: "CHR ''_'' \<notin> set g" and i: "CHR ''_'' \<notin> set i"
  shows "py_split CHR ''_'' (entry @ ''_chat_channel_'' @ g @ ''_'' @ i)
           = [entry, ''chat'', ''channel'', g, i]"
proof -
  have 1: "py_split CHR ''_'' (g @ CHR ''_'' # i) = [g, i]"
    using g i by (simp add: py_split_append py_split_no_sep)
  have 2: "py_split CHR ''_'' (''channel'' @ CHR ''_'' # (g @ CHR ''_'' # i)) = [''channel'', g, i]"
    by (subst py_split_append) (simp_all add: 1)
  have 3: "py_split CHR ''_'' (''chat'' @ CHR ''_'' # (''channel'' @ CHR ''_'' # (g @ CHR ''_'' # i)))
      = [''chat'', ''channel'', g, i]"
    by (subst py_split_append) (simp_all only: 2, simp)
  have 4: "py_split CHR ''_''
      (entry @ CHR ''_'' # (''chat'' @ CHR ''_'' # (''channel'' @ CHR ''_'' # (g @ CHR ''_'' # i))))
      = [entry, ''chat'', ''channel'', g, i]"
    using e by (subst py_split_append) (simp_all only: 3, simp)
  have "entry @ ''_chat_channel_'' @ g @ ''_'' @ i
      = entry @ CHR ''_'' # (''chat'' @ CHR ''_'' # (''channel'' @ CHR ''_'' # (g @ CHR ''_'' # i)))"
    by simp
  with 4 show ?thesis by (simp only:)
qed

lemma dm_unique_id_pieces:
  assumes e: "CHR ''_'' \<notin> set entry" and g: "CHR ''_'' \<notin> set g"
  shows "py_split CHR ''_'' (entry @ ''_chat_dm_'' @ g) = [entry, ''chat'', ''dm'', g]"
proof -
  have 1: "py_split CHR ''_'' g = [g]"
    using g by (simp add: py_split_no_sep)
  have 2: "py_split CHR ''_'' (''dm'' @ CHR ''_'' # g) = [''dm'', g]"
    by (subst py_split_append) (simp_all add: 1)
  have 3: "py_split CHR ''_'' (''chat'' @ CHR ''_'' # (''dm'' @ CHR ''_'' # g)) = [''chat'', ''dm'', g]"
    by (subst py_split_append) (simp_all only: 2, simp)
  have 4: "py_split CHR ''_'' (entry @ CHR ''_'' # (''chat'' @ CHR ''_'' # (''dm'' @ CHR ''_'' # g)))
      = [entry, ''chat'', ''dm'', g]"
    using e by (subst py_split_append) (simp_all only: 3, simp)
  have "entry @ ''_chat_dm_'' @ g = entry @ CHR ''_'' # (''chat'' @ CHR ''_'' # (''dm'' @ CHR ''_'' # g))"
    by simp
  with 4 show ?thesis by (simp only:)
qed

lemma channel_init_fields:
  assumes "MeshtasticChannelText_init entry gw idx nm prim sec cl = Inr c"
  shows "history c = []" and "attr_native_value c = None" and "index c = idx"
    and "channel_name c = nm" and "primary c = prim" and "secondary c = sec"
    and "client c = cl"
    and "settings c = \<lparr>name_key = None, psk = Some '''', uplinkEnabled = Some True,
           downlinkEnabled = Some True\<rparr>"
    and "\<exists>g i. py_str_int gw = Inr g \<and> py_str_int idx = Inr i \<and>
           attr_unique_id c = entry @ ''_chat_channel_'' @ g @ ''_'' @ i"
  using assms
  by (auto simp: MeshtasticChannelText_init_def split: sum.splits)

lemma dm_init_fields:
  assumes "MeshtasticDirectMessageText_init entry gw cl = Inr d"
  shows "history d = []" and "attr_native_value d = None" and "client d = cl"
    and "\<exists>g. py_str_int gw = Inr g \<and> attr_unique_id d = entry @ ''_chat_dm_'' @ g"
  using assms
  by (auto simp: MeshtasticDirectMessageText_init_def split: sum.splits)

text \<open>
  For a config entry ID without underscores, the handler of a constructed entity rebuilds
  the unique ID from the entry ID, the gateway node and the channel index it was
  constructed with, and raises nothing on the way: the lookup is the registry's answer for
  that unique ID.
\<close>

lemma channel_init_entity_id:
  assumes e: "CHR ''_'' \<notin> set entry"
    and c: "MeshtasticChannelText_init entry gw idx nm prim sec cl = Inr c"
  shows "channel_entity_id h c =
           Inr (async_get_entity_id h (GatewayChannelEntity_build_unique_id h entry gw idx))"
proof -
  from channel_init_fields(9) [OF c] obtain g i where
    g: "py_str_int gw = Inr g" and i: "py_str_int idx = Inr i"
    and u: "attr_unique_id c = entry @ ''_chat_channel_'' @ g @ ''_'' @ i" by blast
  have p: "py_split CHR ''_'' (attr_unique_id c) = [entry, ''chat'', ''channel'', g, i]"
    unfolding u using e py_str_int_no_underscore [OF g] py_str_int_no_underscore [OF i]
    by (rule channel_unique_id_pieces)
  show ?thesis
    unfolding channel_entity_id_def p
    by (simp add: py_index_def py_int_py_str_int [OF g] channel_init_fields(3) [OF c])
qed

lemma dm_init_entity_id:
  assumes e: "CHR ''_'' \<notin> set entry"
    and d: "MeshtasticDirectMessageText_init entry gw cl = Inr d"
  shows "dm_entity_id h d =
           Inr (async_get_entity_id h (GatewayDirectMessageEntity_build_unique_id h entry gw))"
proof -
  from dm_init_fields(4) [OF d] obtain g where
    g: "py_str_int gw = Inr g" and u: "attr_unique_id d = entry @ ''_chat_dm_'' @ g" by blast
  have p: "py_split CHR ''_'' (attr_unique_id d) = [entry, ''chat'', ''dm'', g]"
    unfolding u using e py_str_int_no_underscore [OF g]
    by (rule dm_unique_id_pieces)
  show ?thesis
    unfolding dm_entity_id_def p
    by (simp add: py_index_def py_int_py_str_int [OF g])
qed

subsection \<open>What the handlers do with an event\<close>

lemma channel_handler_unmatched:
  "channel_entity_id h c = Inl e \<Longrightarrow>
     MeshtasticChannelText_on_meshtastic_event h c ev = (c, [], Some e)"
  "channel_entity_id h c = Inr None \<Longrightarrow>
     MeshtasticChannelText_on_meshtastic_event h c ev = (c, [], None)"
  "channel_entity_id h c = Inr (Some s) \<Longrightarrow> s = [] \<or> data ev ''entity_id'' \<noteq> Some (PyStr s) \<Longrightarrow>
     MeshtasticChannelText_on_meshtastic_event h c ev = (c, [], None)"
  by (auto simp: MeshtasticChannelText_on_meshtastic_event_def event_matches_def)

lemma dm_handler_unmatched:
  "dm_entity_id h d = Inl e \<Longrightarrow>
     MeshtasticDirectMessageText_on_meshtastic_event h d ev = (d, [], Some e)"
  "dm_entity_id h d = Inr None \<Longrightarrow>
     MeshtasticDirectMessageText_on_meshtastic_event h d ev = (d, [], None)"
  "dm_entity_id h d = Inr (Some s) \<Longrightarrow> s = [] \<or> data ev ''entity_id'' \<noteq> Some (PyStr s) \<Longrightarrow>
     MeshtasticDirectMessageText_on_meshtastic_event h d ev = (d, [], None)"
  by (auto simp: MeshtasticDirectMessageText_on_meshtastic_event_def event_matches_def)

lemma channel_handler_matched:
  assumes "channel_entity_id h c = Inr (Some s)" "s \<noteq> []"
    "data ev ''entity_id'' = Some (PyStr s)"
  shows "MeshtasticChannelText_on_meshtastic_event h c ev =
           add_to_history c (entry_from (entry_of_event ev)) (entry_message (entry_of_event ev))
             (entry_timestamp (entry_of_event ev))"
  using assms
  by (simp add: MeshtasticChannelText_on_meshtastic_event_def event_matches_def entry_of_event_def)

lemma dm_handler_matched:
  assumes "dm_entity_id h d = Inr (Some s)" "s \<noteq> []"
    "data ev ''entity_id'' = Some (PyStr s)"
  shows "MeshtasticDirectMessageText_on_meshtastic_event h d ev =
           add_to_history d (entry_from (entry_of_event ev)) (entry_message (entry_of_event ev))
             (entry_timestamp (entry_of_event ev))"
  using assms
  by (simp add: MeshtasticDirectMessageText_on_meshtastic_event_def event_matches_def
        entry_of_event_def)

lemma entry_of_event_explicit:
  "entry_of_event ev =
     \<lparr>entry_from = (case data ev ''from'' of None \<Rightarrow> PyStr ''?'' | Some v \<Rightarrow> v),
      entry_message = (case data ev ''message'' of None \<Rightarrow> PyStr '''' | Some v \<Rightarrow> v),
      entry_timestamp = time_fired ev\<rparr>"
  by (simp add: entry_of_event_def data_get_def)

lemma history_entry_eta:
  "\<lparr>entry_from = entry_from x, entry_message = entry_message x,
    entry_timestamp = entry_timestamp x\<rparr> = x"
  by simp

subsection \<open>The concrete inputs\<close>

lemma py_str_int_7: "py_str_int 7 = Inr ''7''"
  by code_simp

lemma py_str_int_0: "py_str_int 0 = Inr ''0''"
  by code_simp

lemma py_str_int_2: "py_str_int 2 = Inr ''2''"
  by code_simp

lemma example_channel_init:
  "MeshtasticChannelText_init ''E1'' 7 0 ''LongFast'' True False client_example = Inr channel_example"
  by (simp add: MeshtasticChannelText_init_def channel_label_def py_str_int_7 py_str_int_0
        client_example_def channel_example_def short_name_of_def gateway_example_def)

lemma example_secondary_init:
  "MeshtasticChannelText_init ''E1'' 7 2 '''' False True client_example = Inr secondary_example"
  by (simp add: MeshtasticChannelText_init_def channel_label_def py_str_int_7 py_str_int_2
        client_example_def channel_example_def secondary_example_def short_name_of_def
        gateway_example_def)

lemma example_dm_init:
  "MeshtasticDirectMessageText_init ''E1'' 7 client_example = Inr dm_example"
  by (simp add: MeshtasticDirectMessageText_init_def py_str_int_7
        client_example_def dm_example_def short_name_of_def gateway_example_def)

lemma example_channel_id:
  "channel_entity_id host_example channel_example = Inr (Some ''meshtastic.gateway_gw_channel_longfast'')"
  by code_simp

lemma example_secondary_id:
  "channel_entity_id host_example secondary_example = Inr None"
  by code_simp

lemma example_dm_id:
  "dm_entity_id host_example dm_example = Inr (Some ''meshtastic.gateway_gw_direct_messages'')"
  by code_simp

section \<open>Facts about the reboot button\<close>

lemma press_times_id: "press_times n self = self"
  by (induction n) (simp_all add: async_press_def)

text \<open>
  Every button of \<^verbatim>\<open>_build_buttons\<close> holds the one client of the runtime data, and a
  press sends that client the single request \<^verbatim>\<open>reboot(5)\<close>.
\<close>

lemma build_buttons_requests:
  "build_buttons nodes rd = Inr bs \<Longrightarrow>
     map node_id bs = nodes \<and>
     (\<forall>b \<in> set bs. button_client b = runtime_client rd \<and>
        client_requests (fst (snd (async_press b))) = [Reboot 5])"
  by (auto simp: build_buttons_def MeshtasticNodeRebootButton_init_def async_press_def
        client_requests_def comp_def split: sum.splits)

lemma example_ids:
  "channel_entity_id host_blank_example channel_example = Inr (Some '''')"
  "channel_entity_id host_example (channel_example\<lparr>attr_unique_id := ''E1_chat''\<rparr>) = Inl IndexError"
  "dm_entity_id host_example dm_unregistered_example = Inr None"
  "dm_entity_id host_blank_example dm_example = Inr (Some '''')"
  "dm_entity_id host_example (dm_example\<lparr>attr_unique_id := ''E1_chat_dm_x7''\<rparr>) = Inl ValueError"
  by code_simp+

lemma example_registry:
  "async_get_entity_id host_example (GatewayChannelEntity_build_unique_id host_example ''E1'' 7 2) = None"
  "async_get_entity_id host_example (GatewayDirectMessageEntity_build_unique_id host_example ''E1'' 8) = None"
  by code_simp+

lemma py_str_int_8: "py_str_int 8 = Inr ''8''"
  by code_simp

lemma example_dm_unregistered_init:
  "MeshtasticDirectMessageText_init ''E1'' 8 client_example = Inr dm_unregistered_example"
  by (simp add: MeshtasticDirectMessageText_init_def py_str_int_8 client_example_def
        dm_example_def dm_unregistered_example_def short_name_of_def gateway_example_def)

lemma example_event_ids:
  "data (channel_event msg t) ''entity_id'' = Some (PyStr ''meshtastic.gateway_gw_channel_longfast'')"
  "data (dm_event msg t) ''entity_id'' = Some (PyStr ''meshtastic.gateway_gw_direct_messages'')"
  "data bare_channel_event ''entity_id'' = Some (PyStr ''meshtastic.gateway_gw_channel_longfast'')"
  "data bare_dm_event ''entity_id'' = Some (PyStr ''meshtastic.gateway_gw_direct_messages'')"
  "data anonymous_event ''entity_id'' = None"
  "data blank_event ''entity_id'' = Some (PyStr '''')"
  by (simp_all add: channel_event_def dm_event_def bare_channel_event_def bare_dm_event_def
        anonymous_event_def blank_event_def)

lemma example_bare_fields:
  "data bare_channel_event ''from'' = None" "data bare_channel_event ''message'' = None"
  "data bare_dm_event ''from'' = None" "data bare_dm_event ''message'' = None"
  "time_fired bare_channel_event = 1700000000" "time_fired bare_dm_event = 1700000000"
  by (simp_all add: bare_channel_event_def bare_dm_event_def)

lemma example_state:
  "history channel_example = []" "attr_native_value channel_example = None"
  "history dm_example = []" "attr_native_value dm_example = None"
  by (simp_all add: channel_example_def dm_example_def)

subsection \<open>The history under submissions and events\<close>

lemma channel_submit_history:
  "history (fst (MeshtasticChannelText_async_set_value c v)) = history c"
  by (simp add: MeshtasticChannelText_async_set_value_def async_write_ha_state_def
        split: option.splits)

lemma dm_submit_history:
  "history (fst (MeshtasticDirectMessageText_async_set_value d v)) = history d"
  by (simp add: MeshtasticDirectMessageText_async_set_value_def async_write_ha_state_def
        split: option.splits)

lemma channel_apply_bound:
  "length (history c) \<le> 50 \<Longrightarrow> length (history (channel_apply h c op)) \<le> 50"
  by (cases op) (simp_all add: channel_submit_history channel_handler_history split: sum.splits)

lemma dm_apply_bound:
  "length (history d) \<le> 50 \<Longrightarrow> length (history (dm_apply h d op)) \<le> 50"
  by (cases op) (simp_all add: dm_submit_history dm_handler_history split: sum.splits)

lemma channel_ops_bound:
  "length (history c) \<le> 50 \<Longrightarrow> length (history (foldl (channel_apply h) c ops)) \<le> 50"
proof (induction ops arbitrary: c)
  case Nil
  then show ?case by simp
next
  case (Cons op ops)
  from Cons.prems have "length (history (channel_apply h c op)) \<le> 50"
    by (rule channel_apply_bound)
  then show ?case using Cons.IH by simp
qed

lemma dm_ops_bound:
  "length (history d) \<le> 50 \<Longrightarrow> length (history (foldl (dm_apply h) d ops)) \<le> 50"
proof (induction ops arbitrary: d)
  case Nil
  then show ?case by simp
next
  case (Cons op ops)
  from Cons.prems have "length (history (dm_apply h d op)) \<le> 50"
    by (rule dm_apply_bound)
  then show ?case using Cons.IH by simp
qed

subsection \<open>The setup of the text entities\<close>

lemma channel_texts_append: "channel_texts (xs @ ys) = channel_texts xs @ channel_texts ys"
  by (induction xs rule: channel_texts.induct) simp_all

lemma channel_texts_ChannelText: "channel_texts (map ChannelText cs) = cs"
  by (induction cs) simp_all

lemma channel_entity_of_built:
  assumes "channel_entity_of entry gateway cl channel r = Inr c" and "role channel = Some r"
  shows "built_from c channel"
    and "settings c = \<lparr>name_key = None, psk = Some '''', uplinkEnabled = Some True,
           downlinkEnabled = Some True\<rparr>"
    and "client c = cl" and "history c = []"
proof -
  from assms(1) obtain gw idx st nm where
    k: "num gateway = Some gw" "index_key channel = Some idx" "settings_key channel = Some st"
      "name_key st = Some nm"
    and i: "MeshtasticChannelText_init entry gw idx nm (r = ''PRIMARY'') (r = ''SECONDARY'') cl = Inr c"
    by (auto simp: channel_entity_of_def split: option.splits)
  from k assms(2) channel_init_fields(3-6) [OF i] show "built_from c channel"
    by (simp add: built_from_def)
  from channel_init_fields(8) [OF i]
  show "settings c = \<lparr>name_key = None, psk = Some '''', uplinkEnabled = Some True,
           downlinkEnabled = Some True\<rparr>" .
  from channel_init_fields(7) [OF i] show "client c = cl" .
  from channel_init_fields(1) [OF i] show "history c = []" .
qed

text \<open>
  The loop: what it adds to the list is one channel chat per channel whose role is not
  \<^verbatim>\<open>"DISABLED"\<close>, in the order of the channels.
\<close>

lemma channel_entities_built:
  "channel_entities entry gateway cl channels acc = Inr es \<Longrightarrow>
     \<exists>cs. es = acc @ map ChannelText cs \<and>
          list_all2 built_from cs (filter (\<lambda>ch. role ch \<noteq> Some ''DISABLED'') channels) \<and>
          (\<forall>c \<in> set cs. settings c = \<lparr>name_key = None, psk = Some '''', uplinkEnabled = Some True,
             downlinkEnabled = Some True\<rparr>)"
proof (induction channels arbitrary: acc)
  case Nil
  then show ?case by simp
next
  case (Cons ch chs)
  from Cons.prems obtain r where r: "role ch = Some r"
    by (auto split: option.splits)
  show ?case
  proof (cases "r = ''DISABLED''")
    case True
    with Cons.prems r have "channel_entities entry gateway cl chs acc = Inr es" by simp
    from Cons.IH [OF this] True r show ?thesis by simp
  next
    case False
    with Cons.prems r obtain c where
      c: "channel_entity_of entry gateway cl ch r = Inr c"
      and rest: "channel_entities entry gateway cl chs (acc @ [ChannelText c]) = Inr es"
      by (auto split: sum.splits)
    from Cons.IH [OF rest] obtain cs where
      cs: "es = (acc @ [ChannelText c]) @ map ChannelText cs"
        "list_all2 built_from cs (filter (\<lambda>ch. role ch \<noteq> Some ''DISABLED'') chs)"
        "\<forall>c \<in> set cs. settings c = \<lparr>name_key = None, psk = Some '''', uplinkEnabled = Some True,
             downlinkEnabled = Some True\<rparr>"
      by blast
    have "es = acc @ map ChannelText (c # cs)" using cs(1) by simp
    moreover have "list_all2 built_from (c # cs)
        (filter (\<lambda>ch. role ch \<noteq> Some ''DISABLED'') (ch # chs))"
      using cs(2) channel_entity_of_built(1) [OF c r] False r by simp
    moreover have "\<forall>x \<in> set (c # cs). settings x = \<lparr>name_key = None, psk = Some '''',
        uplinkEnabled = Some True, downlinkEnabled = Some True\<rparr>"
      using cs(3) channel_entity_of_built(2) [OF c r] by simp
    ultimately show ?thesis by blast
  qed
qed

lemma async_setup_entry_built:
  assumes "async_setup_entry entry = Inr es"
    and "async_get_channels (runtime_client (entry_runtime_data entry)) = Inr channels"
  shows "list_all2 built_from (channel_texts es)
           (filter (\<lambda>ch. role ch \<noteq> Some ''DISABLED'') channels)"
    and "\<forall>c \<in> set (channel_texts es). settings c = \<lparr>name_key = None, psk = Some '''',
           uplinkEnabled = Some True, downlinkEnabled = Some True\<rparr>"
    and "length es = Suc (length (filter (\<lambda>ch. role ch \<noteq> Some ''DISABLED'') channels))"
proof -
  from assms obtain gateway entities dm where
    e: "channel_entities (entry_id entry) gateway (runtime_client (entry_runtime_data entry))
          channels [] = Inr entities"
    and es: "es = entities @ [DirectMessageText dm]"
    by (auto simp: async_setup_entry_def Let_def split: sum.splits option.splits)
  from channel_entities_built [OF e] obtain cs where
    cs: "entities = map ChannelText cs"
      "list_all2 built_from cs (filter (\<lambda>ch. role ch \<noteq> Some ''DISABLED'') channels)"
      "\<forall>c \<in> set cs. settings c = \<lparr>name_key = None, psk = Some '''', uplinkEnabled = Some True,
             downlinkEnabled = Some True\<rparr>"
    by auto
  have t: "channel_texts es = cs"
    by (simp add: es cs(1) channel_texts_append channel_texts_ChannelText)
  from cs(2) t show "list_all2 built_from (channel_texts es)
           (filter (\<lambda>ch. role ch \<noteq> Some ''DISABLED'') channels)" by simp
  from cs(3) t show "\<forall>c \<in> set (channel_texts es). settings c = \<lparr>name_key = None, psk = Some '''',
           uplinkEnabled = Some True, downlinkEnabled = Some True\<rparr>" by simp
  from list_all2_lengthD [OF cs(2)] show
    "length es = Suc (length (filter (\<lambda>ch. role ch \<noteq> Some ''DISABLED'') channels))"
    by (simp add: es cs(1))
qed

lemma example_setup:
  "async_setup_entry entry_example
     = Inr [ChannelText channel_example, ChannelText secondary_example, DirectMessageText dm_example]"
proof -
  have g: "async_get_own_node client_example = Inr gateway_example"
    and c: "async_get_channels client_example = Inr channels_example"
    by (simp_all add: client_example_def)
  have n: "num gateway_example = Some 7"
    by (simp add: gateway_example_def)
  have ce: "channel_entities ''E1'' gateway_example client_example channels_example []
      = Inr [ChannelText channel_example, ChannelText secondary_example]"
    by (simp add: channels_example_def channel_entity_of_def n example_channel_init
          example_secondary_init)
  have r: "runtime_client (entry_runtime_data entry_example) = client_example"
    "entry_id entry_example = ''E1''"
    by (simp_all add: entry_example_def)
  show ?thesis
    unfolding async_setup_entry_def r Let_def
    by (simp add: g c ce n example_dm_init)
qed


lemma example_entry_channels:
  "async_get_channels (runtime_client (entry_runtime_data entry_example)) = Inr channels_example"
  by (simp add: entry_example_def client_example_def)

section \<open>The claims\<close>

text \<open>
  C1. A press of the reboot button of node \<open>n\<close> issues exactly one reboot request with a
  delay of 5 seconds, directed at node \<open>n\<close>. The code issues exactly one request with
  delay 5, but the request names no node: the buttons built for the gateway 7 and for the
  remote node 1234 send the same \<^verbatim>\<open>reboot(5)\<close> to the same client.
\<close>

theorem reboot_request_carries_no_node:
  "(case build_buttons [7, 1234] \<lparr>coordinator = (), runtime_client = client_example\<rparr> of
      Inl e \<Rightarrow> []
    | Inr bs \<Rightarrow> map (\<lambda>b. (node_id b, client_requests (fst (snd (async_press b))))) bs)
   = [(7, [Reboot 5]), (1234, [Reboot 5])]"
  by (simp add: build_buttons_def client_example_def MeshtasticNodeRebootButton_init_def
        async_press_def client_requests_def)

text \<open>
  C9. Pressing a reboot button changes no field of the button entity, for one press and
  for any number of presses in a row.
\<close>

theorem reboot_press_mutates_nothing:
  "fst (async_press self) = self \<and> press_times n self = self"
  by (simp add: async_press_def press_times_id)

text \<open>
  C7. Every text submission makes exactly one send call to the client: a channel chat
  sends the text with its own channel index, the direct-message chat sends it with no
  channel index and no destination.
\<close>

theorem submission_sends_once:
  "client_requests (fst (snd (MeshtasticChannelText_async_set_value c v)))
     = [SendText v (Some (index c))]
   \<and> client_requests (fst (snd (MeshtasticDirectMessageText_async_set_value d v)))
     = [SendText v None]"
  by (simp add: MeshtasticChannelText_async_set_value_def
        MeshtasticDirectMessageText_async_set_value_def async_write_ha_state_def
        client_requests_def split: option.splits)

text \<open>
  C2, as stated: after a submission the input value is the empty string whether the
  client's send succeeds or fails. It is false when the send fails: on a channel chat
  whose client raises, the input value is not the empty string afterwards.
\<close>

theorem failed_send_keeps_input_counterexample:
  "attr_native_value
     (fst (MeshtasticChannelText_async_set_value (channel_example\<lparr>client := client_down\<rparr>) ''hello''))
   \<noteq> Some ''''"
  by (simp add: MeshtasticChannelText_async_set_value_def channel_example_def client_down_def
        client_example_def)

text \<open>
  C2, amended: for both chat entities and every submitted text, when the client's send
  returns the input value is the empty string afterwards and that value is written to the
  host; when the send raises, the exception is the outcome, nothing is written and the
  entity is unchanged.
\<close>

theorem input_cleared_when_send_returns:
  "(send_text (client c) v (Some (index c)) = None \<longrightarrow>
      attr_native_value (fst (MeshtasticChannelText_async_set_value c v)) = Some '''' \<and>
      snd (MeshtasticChannelText_async_set_value c v)
        = ([SendText v (Some (index c)), WriteHaState (Some '''') (history c)], None))
   \<and> (send_text (client c) v (Some (index c)) = Some e \<longrightarrow>
      MeshtasticChannelText_async_set_value c v = (c, [SendText v (Some (index c))], Some e))
   \<and> (send_text (client d) v None = None \<longrightarrow>
      attr_native_value (fst (MeshtasticDirectMessageText_async_set_value d v)) = Some '''' \<and>
      snd (MeshtasticDirectMessageText_async_set_value d v)
        = ([SendText v None, WriteHaState (Some '''') (history d)], None))
   \<and> (send_text (client d) v None = Some e \<longrightarrow>
      MeshtasticDirectMessageText_async_set_value d v = (d, [SendText v None], Some e))"
  by (simp add: MeshtasticChannelText_async_set_value_def
        MeshtasticDirectMessageText_async_set_value_def async_write_ha_state_def)

theorem input_cleared_when_send_returns_witness:
  "send_text (client channel_example) ''hello'' (Some (index channel_example)) = None
   \<and> attr_native_value (fst (MeshtasticChannelText_async_set_value channel_example ''hello'')) = Some ''''
   \<and> send_text (client (channel_example\<lparr>client := client_down\<rparr>)) ''hello''
        (Some (index (channel_example\<lparr>client := client_down\<rparr>))) = Some (ClientError ''not connected'')
   \<and> fst (MeshtasticChannelText_async_set_value (channel_example\<lparr>client := client_down\<rparr>) ''hello'')
        = channel_example\<lparr>client := client_down\<rparr>
   \<and> send_text (client dm_example) ''hello'' None = None
   \<and> attr_native_value (fst (MeshtasticDirectMessageText_async_set_value dm_example ''hello'')) = Some ''''
   \<and> send_text (client (dm_example\<lparr>client := client_down\<rparr>)) ''hello'' None
        = Some (ClientError ''not connected'')
   \<and> fst (MeshtasticDirectMessageText_async_set_value (dm_example\<lparr>client := client_down\<rparr>) ''hello'')
        = dm_example\<lparr>client := client_down\<rparr>"
proof -
  have a: "send_text (client channel_example) ''hello'' (Some (index channel_example)) = None"
    by (simp add: channel_example_def client_example_def)
  have b: "send_text (client (channel_example\<lparr>client := client_down\<rparr>)) ''hello''
        (Some (index (channel_example\<lparr>client := client_down\<rparr>))) = Some (ClientError ''not connected'')"
    by (simp add: client_down_def)
  have c: "send_text (client dm_example) ''hello'' None = None"
    by (simp add: dm_example_def client_example_def)
  have d: "send_text (client (dm_example\<lparr>client := client_down\<rparr>)) ''hello'' None
        = Some (ClientError ''not connected'')"
    by (simp add: client_down_def)
  show ?thesis
    using a b c d
      input_cleared_when_send_returns [of channel_example "''hello''" "ClientError ''x''" dm_example]
      input_cleared_when_send_returns [of "channel_example\<lparr>client := client_down\<rparr>" "''hello''"
        "ClientError ''not connected''" "dm_example\<lparr>client := client_down\<rparr>"]
    by simp
qed

text \<open>
  C8. An event whose target does not resolve to the entity leaves the entity, its history
  included, unchanged and writes no state: when the registry knows no entity for the
  rebuilt unique ID (for every event whatsoever), when the registered ID is not the
  event's \<^verbatim>\<open>entity_id\<close> or is empty, and when the rebuilding itself raised. For an entity
  as the constructor leaves it, under a config entry ID without underscores, the first
  case is: the registry has no entry for the unique ID built from the entity's entry ID,
  gateway node and channel index. For both chat entities.
\<close>

theorem unmatched_event_leaves_entity:
  "(channel_entity_id h c = Inr None \<longrightarrow>
      MeshtasticChannelText_on_meshtastic_event h c ev = (c, [], None))
   \<and> (channel_entity_id h c = Inr (Some s) \<and> (s = [] \<or> data ev ''entity_id'' \<noteq> Some (PyStr s)) \<longrightarrow>
      MeshtasticChannelText_on_meshtastic_event h c ev = (c, [], None))
   \<and> (channel_entity_id h c = Inl e \<longrightarrow>
      MeshtasticChannelText_on_meshtastic_event h c ev = (c, [], Some e))
   \<and> (CHR ''_'' \<notin> set entry \<and> MeshtasticChannelText_init entry gw idx nm prim sec cl = Inr c \<and>
        async_get_entity_id h (GatewayChannelEntity_build_unique_id h entry gw idx) = None \<longrightarrow>
      MeshtasticChannelText_on_meshtastic_event h c ev = (c, [], None))
   \<and> (dm_entity_id h d = Inr None \<longrightarrow>
      MeshtasticDirectMessageText_on_meshtastic_event h d ev = (d, [], None))
   \<and> (dm_entity_id h d = Inr (Some s) \<and> (s = [] \<or> data ev ''entity_id'' \<noteq> Some (PyStr s)) \<longrightarrow>
      MeshtasticDirectMessageText_on_meshtastic_event h d ev = (d, [], None))
   \<and> (dm_entity_id h d = Inl e \<longrightarrow>
      MeshtasticDirectMessageText_on_meshtastic_event h d ev = (d, [], Some e))
   \<and> (CHR ''_'' \<notin> set entry \<and> MeshtasticDirectMessageText_init entry gw cl = Inr d \<and>
        async_get_entity_id h (GatewayDirectMessageEntity_build_unique_id h entry gw) = None \<longrightarrow>
      MeshtasticDirectMessageText_on_meshtastic_event h d ev = (d, [], None))"
  using channel_handler_unmatched [of h c] dm_handler_unmatched [of h d]
    channel_init_entity_id [of entry gw idx nm prim sec cl c h]
    dm_init_entity_id [of entry gw cl d h]
  by auto

theorem unmatched_event_leaves_entity_witness:
  "channel_entity_id host_example secondary_example = Inr None
   \<and> MeshtasticChannelText_on_meshtastic_event host_example secondary_example anonymous_event
       = (secondary_example, [], None)
   \<and> channel_entity_id host_example channel_example
       = Inr (Some ''meshtastic.gateway_gw_channel_longfast'')
   \<and> data (dm_event ''hi'' 1) ''entity_id'' \<noteq> Some (PyStr ''meshtastic.gateway_gw_channel_longfast'')
   \<and> MeshtasticChannelText_on_meshtastic_event host_example channel_example (dm_event ''hi'' 1)
       = (channel_example, [], None)
   \<and> channel_entity_id host_blank_example channel_example = Inr (Some '''')
   \<and> MeshtasticChannelText_on_meshtastic_event host_blank_example channel_example blank_event
       = (channel_example, [], None)
   \<and> channel_entity_id host_example (channel_example\<lparr>attr_unique_id := ''E1_chat''\<rparr>) = Inl IndexError
   \<and> MeshtasticChannelText_on_meshtastic_event host_example
         (channel_example\<lparr>attr_unique_id := ''E1_chat''\<rparr>) (channel_event ''hi'' 1)
       = (channel_example\<lparr>attr_unique_id := ''E1_chat''\<rparr>, [], Some IndexError)
   \<and> CHR ''_'' \<notin> set ''E1''
   \<and> MeshtasticChannelText_init ''E1'' 7 2 '''' False True client_example = Inr secondary_example
   \<and> async_get_entity_id host_example
         (GatewayChannelEntity_build_unique_id host_example ''E1'' 7 2) = None
   \<and> MeshtasticChannelText_on_meshtastic_event host_example secondary_example (channel_event ''hi'' 1)
       = (secondary_example, [], None)
   \<and> dm_entity_id host_example dm_unregistered_example = Inr None
   \<and> MeshtasticDirectMessageText_on_meshtastic_event host_example dm_unregistered_example
         (dm_event ''hi'' 1) = (dm_unregistered_example, [], None)
   \<and> dm_entity_id host_example dm_example = Inr (Some ''meshtastic.gateway_gw_direct_messages'')
   \<and> data (channel_event ''hi'' 1) ''entity_id'' \<noteq> Some (PyStr ''meshtastic.gateway_gw_direct_messages'')
   \<and> MeshtasticDirectMessageText_on_meshtastic_event host_example dm_example (channel_event ''hi'' 1)
       = (dm_example, [], None)
   \<and> dm_entity_id host_blank_example dm_example = Inr (Some '''')
   \<and> MeshtasticDirectMessageText_on_meshtastic_event host_blank_example dm_example blank_event
       = (dm_example, [], None)
   \<and> dm_entity_id host_example (dm_example\<lparr>attr_unique_id := ''E1_chat_dm_x7''\<rparr>) = Inl ValueError
   \<and> MeshtasticDirectMessageText_on_meshtastic_event host_example
         (dm_example\<lparr>attr_unique_id := ''E1_chat_dm_x7''\<rparr>) (dm_event ''hi'' 1)
       = (dm_example\<lparr>attr_unique_id := ''E1_chat_dm_x7''\<rparr>, [], Some ValueError)
   \<and> MeshtasticDirectMessageText_init ''E1'' 8 client_example = Inr dm_unregistered_example
   \<and> async_get_entity_id host_example
         (GatewayDirectMessageEntity_build_unique_id host_example ''E1'' 8) = None
   \<and> MeshtasticDirectMessageText_on_meshtastic_event host_example dm_unregistered_example
         anonymous_event = (dm_unregistered_example, [], None)"
proof -
  have u: "CHR ''_'' \<notin> set ''E1''" by simp
  have m1: "data (dm_event ''hi'' 1) ''entity_id'' \<noteq> Some (PyStr ''meshtastic.gateway_gw_channel_longfast'')"
    "data (channel_event ''hi'' 1) ''entity_id'' \<noteq> Some (PyStr ''meshtastic.gateway_gw_direct_messages'')"
    by (simp_all add: example_event_ids)
  have a1: "MeshtasticChannelText_on_meshtastic_event host_example secondary_example anonymous_event
       = (secondary_example, [], None)"
    using unmatched_event_leaves_entity [where h = host_example and c = secondary_example
        and ev = anonymous_event]
      example_secondary_id by blast
  have a2: "MeshtasticChannelText_on_meshtastic_event host_example channel_example (dm_event ''hi'' 1)
       = (channel_example, [], None)"
    using unmatched_event_leaves_entity [where h = host_example and c = channel_example
        and ev = "dm_event ''hi'' 1" and s = "''meshtastic.gateway_gw_channel_longfast''"]
      example_channel_id m1(1) by blast
  have a3: "MeshtasticChannelText_on_meshtastic_event host_blank_example channel_example blank_event
       = (channel_example, [], None)"
    using unmatched_event_leaves_entity [where h = host_blank_example and c = channel_example
        and ev = blank_event and s = "''''"]
      example_ids(1) by blast
  have a4: "MeshtasticChannelText_on_meshtastic_event host_example
         (channel_example\<lparr>attr_unique_id := ''E1_chat''\<rparr>) (channel_event ''hi'' 1)
       = (channel_example\<lparr>attr_unique_id := ''E1_chat''\<rparr>, [], Some IndexError)"
    using unmatched_event_leaves_entity [where h = host_example
        and c = "channel_example\<lparr>attr_unique_id := ''E1_chat''\<rparr>"
        and ev = "channel_event ''hi'' 1" and e = IndexError]
      example_ids(2) by blast
  have a5: "MeshtasticChannelText_on_meshtastic_event host_example secondary_example
         (channel_event ''hi'' 1) = (secondary_example, [], None)"
    using unmatched_event_leaves_entity [where h = host_example and c = secondary_example
        and ev = "channel_event ''hi'' 1" and entry = "''E1''" and gw = 7 and idx = 2
        and nm = "''''" and prim = False and sec = True and cl = client_example]
      u example_secondary_init example_registry(1) by blast
  have b1: "MeshtasticDirectMessageText_on_meshtastic_event host_example dm_unregistered_example
         (dm_event ''hi'' 1) = (dm_unregistered_example, [], None)"
    using unmatched_event_leaves_entity [where h = host_example and d = dm_unregistered_example
        and ev = "dm_event ''hi'' 1"]
      example_ids(3) by blast
  have b2: "MeshtasticDirectMessageText_on_meshtastic_event host_example dm_example
         (channel_event ''hi'' 1) = (dm_example, [], None)"
    using unmatched_event_leaves_entity [where h = host_example and d = dm_example
        and ev = "channel_event ''hi'' 1" and s = "''meshtastic.gateway_gw_direct_messages''"]
      example_dm_id m1(2) by blast
  have b3: "MeshtasticDirectMessageText_on_meshtastic_event host_blank_example dm_example blank_event
       = (dm_example, [], None)"
    using unmatched_event_leaves_entity [where h = host_blank_example and d = dm_example
        and ev = blank_event and s = "''''"]
      example_ids(4) by blast
  have b4: "MeshtasticDirectMessageText_on_meshtastic_event host_example
         (dm_example\<lparr>attr_unique_id := ''E1_chat_dm_x7''\<rparr>) (dm_event ''hi'' 1)
       = (dm_example\<lparr>attr_unique_id := ''E1_chat_dm_x7''\<rparr>, [], Some ValueError)"
    using unmatched_event_leaves_entity [where h = host_example
        and d = "dm_example\<lparr>attr_unique_id := ''E1_chat_dm_x7''\<rparr>"
        and ev = "dm_event ''hi'' 1" and e = ValueError]
      example_ids(5) by blast
  have b5: "MeshtasticDirectMessageText_on_meshtastic_event host_example dm_unregistered_example
         anonymous_event = (dm_unregistered_example, [], None)"
    using unmatched_event_leaves_entity [where h = host_example and d = dm_unregistered_example
        and ev = anonymous_event and entry = "''E1''" and gw = 8 and cl = client_example]
      u example_dm_unregistered_init example_registry(2) by blast
  show ?thesis
    using u m1 a1 a2 a3 a4 a5 b1 b2 b3 b4 b5 example_secondary_id example_channel_id example_ids
      example_secondary_init example_registry example_dm_id example_dm_unregistered_init
    by (intro conjI) assumption+
qed

text \<open>
  C10. An event that matches the entity (the registry's entity ID for the rebuilt unique
  ID is not empty and is the event's \<^verbatim>\<open>entity_id\<close>) is appended whether or not its data has
  the keys \<^verbatim>\<open>"from"\<close> and \<^verbatim>\<open>"message"\<close>: the history afterwards is the history before with
  one entry more at the end, less its first entry when it had 50, and the new entry holds
  the event's sender, or \<^verbatim>\<open>"?"\<close> without the key, its text, or the empty string without
  the key, and its time. Nothing in the handler raises on the event's fields: the only
  exception is that of the state write on an entity whose input value was never assigned,
  which comes after the append and whatever the event holds. For both chat entities.
\<close>

theorem event_without_fields_is_appended:
  "(channel_entity_id h c = Inr (Some s) \<and> s \<noteq> [] \<and> data ev ''entity_id'' = Some (PyStr s) \<longrightarrow>
      history (fst (MeshtasticChannelText_on_meshtastic_event h c ev)) =
        (if length (history c) < 50 then history c else tl (history c)) @
        [\<lparr>entry_from = (case data ev ''from'' of None \<Rightarrow> PyStr ''?'' | Some v \<Rightarrow> v),
          entry_message = (case data ev ''message'' of None \<Rightarrow> PyStr '''' | Some v \<Rightarrow> v),
          entry_timestamp = time_fired ev\<rparr>] \<and>
      snd (snd (MeshtasticChannelText_on_meshtastic_event h c ev)) =
        (if attr_native_value c = None then Some AttributeError else None) \<and>
      fst (snd (MeshtasticChannelText_on_meshtastic_event h c ev)) =
        (case attr_native_value c of
           None \<Rightarrow> []
         | Some v \<Rightarrow>
             [WriteHaState (Some v)
                (history (fst (MeshtasticChannelText_on_meshtastic_event h c ev)))]))
   \<and> (dm_entity_id h d = Inr (Some s) \<and> s \<noteq> [] \<and> data ev ''entity_id'' = Some (PyStr s) \<longrightarrow>
      history (fst (MeshtasticDirectMessageText_on_meshtastic_event h d ev)) =
        (if length (history d) < 50 then history d else tl (history d)) @
        [\<lparr>entry_from = (case data ev ''from'' of None \<Rightarrow> PyStr ''?'' | Some v \<Rightarrow> v),
          entry_message = (case data ev ''message'' of None \<Rightarrow> PyStr '''' | Some v \<Rightarrow> v),
          entry_timestamp = time_fired ev\<rparr>] \<and>
      snd (snd (MeshtasticDirectMessageText_on_meshtastic_event h d ev)) =
        (if attr_native_value d = None then Some AttributeError else None) \<and>
      fst (snd (MeshtasticDirectMessageText_on_meshtastic_event h d ev)) =
        (case attr_native_value d of
           None \<Rightarrow> []
         | Some v \<Rightarrow>
             [WriteHaState (Some v)
                (history (fst (MeshtasticDirectMessageText_on_meshtastic_event h d ev)))]))"
proof -
  have cap: "\<And>(x :: history_entry) ys. (if length ys < 50 then ys @ [x] else tl (ys @ [x]))
      = (if length ys < 50 then ys else tl ys) @ [x]"
    by (case_tac ys) simp_all
  have 1: "history (fst (MeshtasticChannelText_on_meshtastic_event h c ev)) =
        (if length (history c) < 50 then history c else tl (history c)) @ [entry_of_event ev] \<and>
      snd (snd (MeshtasticChannelText_on_meshtastic_event h c ev)) =
        (if attr_native_value c = None then Some AttributeError else None) \<and>
      fst (snd (MeshtasticChannelText_on_meshtastic_event h c ev)) =
        (case attr_native_value c of
           None \<Rightarrow> []
         | Some v \<Rightarrow>
             [WriteHaState (Some v)
                (history (fst (MeshtasticChannelText_on_meshtastic_event h c ev)))])"
    if "channel_entity_id h c = Inr (Some s)" "s \<noteq> []" "data ev ''entity_id'' = Some (PyStr s)"
    unfolding channel_handler_matched [OF that]
    by (simp add: history_add_to_history outcome_add_to_history effects_add_to_history
          history_entry_eta cap)
  have 2: "history (fst (MeshtasticDirectMessageText_on_meshtastic_event h d ev)) =
        (if length (history d) < 50 then history d else tl (history d)) @ [entry_of_event ev] \<and>
      snd (snd (MeshtasticDirectMessageText_on_meshtastic_event h d ev)) =
        (if attr_native_value d = None then Some AttributeError else None) \<and>
      fst (snd (MeshtasticDirectMessageText_on_meshtastic_event h d ev)) =
        (case attr_native_value d of
           None \<Rightarrow> []
         | Some v \<Rightarrow>
             [WriteHaState (Some v)
                (history (fst (MeshtasticDirectMessageText_on_meshtastic_event h d ev)))])"
    if "dm_entity_id h d = Inr (Some s)" "s \<noteq> []" "data ev ''entity_id'' = Some (PyStr s)"
    unfolding dm_handler_matched [OF that]
    by (simp add: history_add_to_history outcome_add_to_history effects_add_to_history
          history_entry_eta cap)
  show ?thesis
    unfolding entry_of_event_explicit [symmetric]
    using 1 2 by blast
qed

theorem event_without_fields_is_appended_witness:
  "channel_entity_id host_example channel_example
       = Inr (Some ''meshtastic.gateway_gw_channel_longfast'')
   \<and> ''meshtastic.gateway_gw_channel_longfast'' \<noteq> []
   \<and> data bare_channel_event ''entity_id'' = Some (PyStr ''meshtastic.gateway_gw_channel_longfast'')
   \<and> data bare_channel_event ''from'' = None \<and> data bare_channel_event ''message'' = None
   \<and> history (fst (MeshtasticChannelText_on_meshtastic_event host_example channel_example
         bare_channel_event))
       = [\<lparr>entry_from = PyStr ''?'', entry_message = PyStr '''', entry_timestamp = 1700000000\<rparr>]
   \<and> snd (snd (MeshtasticChannelText_on_meshtastic_event host_example channel_example
         bare_channel_event)) = Some AttributeError
   \<and> channel_entity_id host_example (channel_example\<lparr>attr_native_value := Some ''''\<rparr>)
       = Inr (Some ''meshtastic.gateway_gw_channel_longfast'')
   \<and> snd (MeshtasticChannelText_on_meshtastic_event host_example
         (channel_example\<lparr>attr_native_value := Some ''''\<rparr>) bare_channel_event)
       = ([WriteHaState (Some '''')
            [\<lparr>entry_from = PyStr ''?'', entry_message = PyStr '''',
              entry_timestamp = 1700000000\<rparr>]], None)
   \<and> dm_entity_id host_example dm_example = Inr (Some ''meshtastic.gateway_gw_direct_messages'')
   \<and> ''meshtastic.gateway_gw_direct_messages'' \<noteq> []
   \<and> data bare_dm_event ''entity_id'' = Some (PyStr ''meshtastic.gateway_gw_direct_messages'')
   \<and> data bare_dm_event ''from'' = None \<and> data bare_dm_event ''message'' = None
   \<and> history (fst (MeshtasticDirectMessageText_on_meshtastic_event host_example dm_example
         bare_dm_event))
       = [\<lparr>entry_from = PyStr ''?'', entry_message = PyStr '''', entry_timestamp = 1700000000\<rparr>]
   \<and> snd (snd (MeshtasticDirectMessageText_on_meshtastic_event host_example dm_example
         bare_dm_event)) = Some AttributeError"
proof -
  have a: "history (fst (MeshtasticChannelText_on_meshtastic_event host_example channel_example
         bare_channel_event))
       = [\<lparr>entry_from = PyStr ''?'', entry_message = PyStr '''', entry_timestamp = 1700000000\<rparr>]
     \<and> snd (snd (MeshtasticChannelText_on_meshtastic_event host_example channel_example
         bare_channel_event)) = Some AttributeError"
    using event_without_fields_is_appended [where h = host_example and c = channel_example
        and ev = bare_channel_event and s = "''meshtastic.gateway_gw_channel_longfast''"]
      example_channel_id example_event_ids(3) example_bare_fields example_state
    by simp
  have b: "history (fst (MeshtasticDirectMessageText_on_meshtastic_event host_example dm_example
         bare_dm_event))
       = [\<lparr>entry_from = PyStr ''?'', entry_message = PyStr '''', entry_timestamp = 1700000000\<rparr>]
     \<and> snd (snd (MeshtasticDirectMessageText_on_meshtastic_event host_example dm_example
         bare_dm_event)) = Some AttributeError"
    using event_without_fields_is_appended [where h = host_example and d = dm_example
        and ev = bare_dm_event and s = "''meshtastic.gateway_gw_direct_messages''"]
      example_dm_id example_event_ids(4) example_bare_fields example_state
    by simp
  have i: "channel_entity_id host_example (channel_example\<lparr>attr_native_value := Some ''''\<rparr>)
       = Inr (Some ''meshtastic.gateway_gw_channel_longfast'')"
    by code_simp
  have c: "snd (MeshtasticChannelText_on_meshtastic_event host_example
         (channel_example\<lparr>attr_native_value := Some ''''\<rparr>) bare_channel_event)
       = ([WriteHaState (Some '''')
            [\<lparr>entry_from = PyStr ''?'', entry_message = PyStr '''',
              entry_timestamp = 1700000000\<rparr>]], None)"
    using event_without_fields_is_appended [where h = host_example
        and c = "channel_example\<lparr>attr_native_value := Some ''''\<rparr>"
        and ev = bare_channel_event and s = "''meshtastic.gateway_gw_channel_longfast''"]
      i example_event_ids(3) example_bare_fields example_state
    by (simp add: prod_eq_iff)
  show ?thesis
    using a b c i example_channel_id example_dm_id example_event_ids(3,4) example_bare_fields
    by simp
qed

text \<open>
  C3. Starting from an empty history, after \<open>N\<close> events that all match the entity (the
  registry's entity ID for the rebuilt unique ID is not empty and is the \<^verbatim>\<open>entity_id\<close> of
  each event) the history has \<open>min N 50\<close> entries, and they are the (sender, message,
  timestamp) entries of the last \<open>min N 50\<close> events in the order of arrival. For both
  chat entities; and, for an entity as the constructor leaves it under a config entry ID
  without underscores, with the match read off the registry: the entity ID registered for
  the unique ID built from the entity's entry ID, gateway node and channel index.
\<close>

theorem history_is_last_fifty_matching:
  "(history c = [] \<and> channel_entity_id h c = Inr (Some s) \<and> s \<noteq> [] \<and>
      (\<forall>ev \<in> set evs. data ev ''entity_id'' = Some (PyStr s)) \<longrightarrow>
      length (history (channel_after_events h c evs)) = min (length evs) 50 \<and>
      history (channel_after_events h c evs)
        = last_n (min (length evs) 50) (map entry_of_event evs))
   \<and> (history d = [] \<and> dm_entity_id h d = Inr (Some s) \<and> s \<noteq> [] \<and>
      (\<forall>ev \<in> set evs. data ev ''entity_id'' = Some (PyStr s)) \<longrightarrow>
      length (history (dm_after_events h d evs)) = min (length evs) 50 \<and>
      history (dm_after_events h d evs)
        = last_n (min (length evs) 50) (map entry_of_event evs))
   \<and> (CHR ''_'' \<notin> set entry \<and> MeshtasticChannelText_init entry gw idx nm prim sec cl = Inr c \<and>
      async_get_entity_id h (GatewayChannelEntity_build_unique_id h entry gw idx) = Some s \<and>
      s \<noteq> [] \<and> (\<forall>ev \<in> set evs. data ev ''entity_id'' = Some (PyStr s)) \<longrightarrow>
      length (history (channel_after_events h c evs)) = min (length evs) 50 \<and>
      history (channel_after_events h c evs)
        = last_n (min (length evs) 50) (map entry_of_event evs))
   \<and> (CHR ''_'' \<notin> set entry \<and> MeshtasticDirectMessageText_init entry gw cl = Inr d \<and>
      async_get_entity_id h (GatewayDirectMessageEntity_build_unique_id h entry gw) = Some s \<and>
      s \<noteq> [] \<and> (\<forall>ev \<in> set evs. data ev ''entity_id'' = Some (PyStr s)) \<longrightarrow>
      length (history (dm_after_events h d evs)) = min (length evs) 50 \<and>
      history (dm_after_events h d evs)
        = last_n (min (length evs) 50) (map entry_of_event evs))"
proof -
  have m: "last_n (min (length evs) 50) (map entry_of_event evs) = last_n 50 (map entry_of_event evs)"
    using last_n_min [of "map entry_of_event evs" 50] by simp
  have l: "length (last_n 50 (map entry_of_event evs)) = min (length evs) 50"
    by (simp add: length_last_n)
  have 1: "length (history (channel_after_events h c evs)) = min (length evs) 50 \<and>
      history (channel_after_events h c evs) = last_n 50 (map entry_of_event evs)"
    if "history c = []" "channel_entity_id h c = Inr (Some s)" "s \<noteq> []"
      "\<forall>ev \<in> set evs. data ev ''entity_id'' = Some (PyStr s)"
    using channel_history_after_matching [OF that(2,3,4)] that(1) l by simp
  have 2: "length (history (dm_after_events h d evs)) = min (length evs) 50 \<and>
      history (dm_after_events h d evs) = last_n 50 (map entry_of_event evs)"
    if "history d = []" "dm_entity_id h d = Inr (Some s)" "s \<noteq> []"
      "\<forall>ev \<in> set evs. data ev ''entity_id'' = Some (PyStr s)"
    using dm_history_after_matching [OF that(2,3,4)] that(1) l by simp
  have 3: "history c = [] \<and> channel_entity_id h c = Inr (Some s)"
    if "CHR ''_'' \<notin> set entry" "MeshtasticChannelText_init entry gw idx nm prim sec cl = Inr c"
      "async_get_entity_id h (GatewayChannelEntity_build_unique_id h entry gw idx) = Some s"
    using channel_init_entity_id [OF that(1,2), of h] channel_init_fields(1) [OF that(2)] that(3)
    by simp
  have 4: "history d = [] \<and> dm_entity_id h d = Inr (Some s)"
    if "CHR ''_'' \<notin> set entry" "MeshtasticDirectMessageText_init entry gw cl = Inr d"
      "async_get_entity_id h (GatewayDirectMessageEntity_build_unique_id h entry gw) = Some s"
    using dm_init_entity_id [OF that(1,2), of h] dm_init_fields(1) [OF that(2)] that(3)
    by simp
  show ?thesis
    unfolding m using 1 2 3 4 by blast
qed

lemma example_registered:
  "async_get_entity_id host_example (GatewayChannelEntity_build_unique_id host_example ''E1'' 7 0)
     = Some ''meshtastic.gateway_gw_channel_longfast''"
  "async_get_entity_id host_example (GatewayDirectMessageEntity_build_unique_id host_example ''E1'' 7)
     = Some ''meshtastic.gateway_gw_direct_messages''"
  by code_simp+

theorem history_is_last_fifty_matching_witness:
  "history channel_example = []
   \<and> channel_entity_id host_example channel_example
       = Inr (Some ''meshtastic.gateway_gw_channel_longfast'')
   \<and> ''meshtastic.gateway_gw_channel_longfast'' \<noteq> []
   \<and> data (channel_event ''ping'' 1) ''entity_id''
       = Some (PyStr ''meshtastic.gateway_gw_channel_longfast'')
   \<and> history (channel_after_events host_example channel_example
         [channel_event ''a'' 1, bare_channel_event])
       = [\<lparr>entry_from = PyInt 42, entry_message = PyStr ''a'', entry_timestamp = 1\<rparr>,
          \<lparr>entry_from = PyStr ''?'', entry_message = PyStr '''', entry_timestamp = 1700000000\<rparr>]
   \<and> CHR ''_'' \<notin> set ''E1''
   \<and> MeshtasticChannelText_init ''E1'' 7 0 ''LongFast'' True False client_example = Inr channel_example
   \<and> async_get_entity_id host_example
         (GatewayChannelEntity_build_unique_id host_example ''E1'' 7 0)
       = Some ''meshtastic.gateway_gw_channel_longfast''
   \<and> length (history (channel_after_events host_example channel_example
         (replicate 60 (channel_event ''ping'' 1)))) = 50
   \<and> history dm_example = []
   \<and> dm_entity_id host_example dm_example = Inr (Some ''meshtastic.gateway_gw_direct_messages'')
   \<and> ''meshtastic.gateway_gw_direct_messages'' \<noteq> []
   \<and> data (dm_event ''ping'' 1) ''entity_id''
       = Some (PyStr ''meshtastic.gateway_gw_direct_messages'')
   \<and> history (dm_after_events host_example dm_example [dm_event ''a'' 1, bare_dm_event])
       = [\<lparr>entry_from = PyInt 42, entry_message = PyStr ''a'', entry_timestamp = 1\<rparr>,
          \<lparr>entry_from = PyStr ''?'', entry_message = PyStr '''', entry_timestamp = 1700000000\<rparr>]
   \<and> MeshtasticDirectMessageText_init ''E1'' 7 client_example = Inr dm_example
   \<and> async_get_entity_id host_example
         (GatewayDirectMessageEntity_build_unique_id host_example ''E1'' 7)
       = Some ''meshtastic.gateway_gw_direct_messages''
   \<and> length (history (dm_after_events host_example dm_example
         (replicate 60 (dm_event ''ping'' 1)))) = 50"
proof -
  have u: "CHR ''_'' \<notin> set ''E1''" by simp
  have e: "entry_of_event (channel_event ''a'' 1)
        = \<lparr>entry_from = PyInt 42, entry_message = PyStr ''a'', entry_timestamp = 1\<rparr>"
      "entry_of_event (dm_event ''a'' 1)
        = \<lparr>entry_from = PyInt 42, entry_message = PyStr ''a'', entry_timestamp = 1\<rparr>"
      "entry_of_event bare_channel_event
        = \<lparr>entry_from = PyStr ''?'', entry_message = PyStr '''', entry_timestamp = 1700000000\<rparr>"
      "entry_of_event bare_dm_event
        = \<lparr>entry_from = PyStr ''?'', entry_message = PyStr '''', entry_timestamp = 1700000000\<rparr>"
    by (simp_all add: entry_of_event_def data_get_def channel_event_def dm_event_def
          bare_channel_event_def bare_dm_event_def)
  have a: "length (history (channel_after_events host_example channel_example
         (replicate 60 (channel_event ''ping'' 1)))) = 50"
    using history_is_last_fifty_matching [where h = host_example and c = channel_example
        and s = "''meshtastic.gateway_gw_channel_longfast''"
        and evs = "replicate 60 (channel_event ''ping'' 1)"
        and entry = "''E1''" and gw = 7 and idx = 0 and nm = "''LongFast''" and prim = True
        and sec = False and cl = client_example]
      u example_channel_init example_registered(1) example_event_ids(1)
    by (simp add: length_last_n)
  have b: "history (channel_after_events host_example channel_example
         [channel_event ''a'' 1, bare_channel_event])
       = [\<lparr>entry_from = PyInt 42, entry_message = PyStr ''a'', entry_timestamp = 1\<rparr>,
          \<lparr>entry_from = PyStr ''?'', entry_message = PyStr '''', entry_timestamp = 1700000000\<rparr>]"
    using history_is_last_fifty_matching [where h = host_example and c = channel_example
        and s = "''meshtastic.gateway_gw_channel_longfast''"
        and evs = "[channel_event ''a'' 1, bare_channel_event]"]
      example_state example_channel_id example_event_ids(1,3)
    by (simp add: last_n_def e)
  have c: "length (history (dm_after_events host_example dm_example
         (replicate 60 (dm_event ''ping'' 1)))) = 50"
    using history_is_last_fifty_matching [where h = host_example and d = dm_example
        and s = "''meshtastic.gateway_gw_direct_messages''"
        and evs = "replicate 60 (dm_event ''ping'' 1)"
        and entry = "''E1''" and gw = 7 and cl = client_example]
      u example_dm_init example_registered(2) example_event_ids(2)
    by (simp add: length_last_n)
  have d: "history (dm_after_events host_example dm_example [dm_event ''a'' 1, bare_dm_event])
       = [\<lparr>entry_from = PyInt 42, entry_message = PyStr ''a'', entry_timestamp = 1\<rparr>,
          \<lparr>entry_from = PyStr ''?'', entry_message = PyStr '''', entry_timestamp = 1700000000\<rparr>]"
    using history_is_last_fifty_matching [where h = host_example and d = dm_example
        and s = "''meshtastic.gateway_gw_direct_messages''"
        and evs = "[dm_event ''a'' 1, bare_dm_event]"]
      example_state example_dm_id example_event_ids(2,4)
    by (simp add: last_n_def e)
  show ?thesis
    using a b c d u example_state example_channel_id example_dm_id example_event_ids(1,2)
      example_channel_init example_dm_init example_registered
    by simp
qed

text \<open>
  C4. The history of a chat entity never has more than 50 entries: it is empty after the
  construction, and after any sequence of text submissions and events that follows it has
  at most 50. An append to a history of 50 entries drops exactly the first, oldest entry
  and keeps the others in order, whatever the entries hold; an append to a shorter history
  drops nothing.
\<close>

theorem history_capped_fifo:
  "(MeshtasticChannelText_init entry gw idx nm prim sec cl = Inr c \<longrightarrow>
      history c = [] \<and> length (history (foldl (channel_apply h) c ops)) \<le> 50)
   \<and> (MeshtasticDirectMessageText_init entry gw cl = Inr d \<longrightarrow>
      history d = [] \<and> length (history (foldl (dm_apply h) d ops)) \<le> 50)
   \<and> (length (history self) = 50 \<longrightarrow>
      history (fst (add_to_history self f m t)) =
        tl (history self) @ [\<lparr>entry_from = f, entry_message = m, entry_timestamp = t\<rparr>])
   \<and> (length (history self) < 50 \<longrightarrow>
      history (fst (add_to_history self f m t)) =
        history self @ [\<lparr>entry_from = f, entry_message = m, entry_timestamp = t\<rparr>])"
proof -
  have 1: "history c = [] \<and> length (history (foldl (channel_apply h) c ops)) \<le> 50"
    if "MeshtasticChannelText_init entry gw idx nm prim sec cl = Inr c"
    using channel_init_fields(1) [OF that] channel_ops_bound [of c h ops] by simp
  have 2: "history d = [] \<and> length (history (foldl (dm_apply h) d ops)) \<le> 50"
    if "MeshtasticDirectMessageText_init entry gw cl = Inr d"
    using dm_init_fields(1) [OF that] dm_ops_bound [of d h ops] by simp
  have 3: "history (fst (add_to_history self f m t)) =
        tl (history self) @ [\<lparr>entry_from = f, entry_message = m, entry_timestamp = t\<rparr>]"
    if "length (history self) = 50"
    using that by (cases "history self") (simp_all add: history_add_to_history)
  have 4: "history (fst (add_to_history self f m t)) =
        history self @ [\<lparr>entry_from = f, entry_message = m, entry_timestamp = t\<rparr>]"
    if "length (history self) < 50"
    using that by (simp add: history_add_to_history)
  from 1 2 3 4 show ?thesis by blast
qed

theorem history_capped_fifo_witness:
  "MeshtasticChannelText_init ''E1'' 7 0 ''LongFast'' True False client_example = Inr channel_example
   \<and> length (history (foldl (channel_apply host_example) channel_example
         [Incoming (channel_event ''a'' 1), Submit ''hello'', Incoming bare_channel_event])) \<le> 50
   \<and> MeshtasticDirectMessageText_init ''E1'' 7 client_example = Inr dm_example
   \<and> length (history (foldl (dm_apply host_example) dm_example
         [Incoming (dm_event ''a'' 1), Submit ''hello'', Incoming bare_dm_event])) \<le> 50
   \<and> length (history (channel_example\<lparr>history := replicate 50 (entry_of_event bare_channel_event)\<rparr>))
       = 50
   \<and> history (fst (add_to_history
         (channel_example\<lparr>history := replicate 50 (entry_of_event bare_channel_event)\<rparr>)
         (PyInt 42) (PyStr ''new'') 1700000001))
       = replicate 49 (entry_of_event bare_channel_event) @
         [\<lparr>entry_from = PyInt 42, entry_message = PyStr ''new'', entry_timestamp = 1700000001\<rparr>]
   \<and> length (history dm_example) < 50
   \<and> history (fst (add_to_history dm_example (PyInt 42) (PyStr ''new'') 1700000001))
       = [\<lparr>entry_from = PyInt 42, entry_message = PyStr ''new'', entry_timestamp = 1700000001\<rparr>]"
proof -
  have a: "length (history (foldl (channel_apply host_example) channel_example
         [Incoming (channel_event ''a'' 1), Submit ''hello'', Incoming bare_channel_event])) \<le> 50"
    using history_capped_fifo [where entry = "''E1''" and gw = 7 and idx = 0 and nm = "''LongFast''"
        and prim = True and sec = False and cl = client_example and c = channel_example
        and h = host_example
        and ops = "[Incoming (channel_event ''a'' 1), Submit ''hello'', Incoming bare_channel_event]"]
      example_channel_init by blast
  have b: "length (history (foldl (dm_apply host_example) dm_example
         [Incoming (dm_event ''a'' 1), Submit ''hello'', Incoming bare_dm_event])) \<le> 50"
    using history_capped_fifo [where entry = "''E1''" and gw = 7 and cl = client_example
        and d = dm_example and h = host_example
        and ops = "[Incoming (dm_event ''a'' 1), Submit ''hello'', Incoming bare_dm_event]"]
      example_dm_init by blast
  have l: "length (history (channel_example\<lparr>history := replicate 50 (entry_of_event bare_channel_event)\<rparr>))
       = 50" by simp
  have t: "tl (replicate 50 (entry_of_event bare_channel_event))
       = replicate 49 (entry_of_event bare_channel_event)"
    by (simp add: tl_replicate)
  have c: "history (fst (add_to_history
         (channel_example\<lparr>history := replicate 50 (entry_of_event bare_channel_event)\<rparr>)
         (PyInt 42) (PyStr ''new'') 1700000001))
       = replicate 49 (entry_of_event bare_channel_event) @
         [\<lparr>entry_from = PyInt 42, entry_message = PyStr ''new'', entry_timestamp = 1700000001\<rparr>]"
    using history_capped_fifo [where
        self = "channel_example\<lparr>history := replicate 50 (entry_of_event bare_channel_event)\<rparr>"
        and f = "PyInt 42" and m = "PyStr ''new''" and t = 1700000001] l t
    by simp
  have s: "length (history dm_example) < 50" by (simp add: example_state)
  have d: "history (fst (add_to_history dm_example (PyInt 42) (PyStr ''new'') 1700000001))
       = [\<lparr>entry_from = PyInt 42, entry_message = PyStr ''new'', entry_timestamp = 1700000001\<rparr>]"
    using history_capped_fifo [where self = dm_example
        and f = "PyInt 42" and m = "PyStr ''new''" and t = 1700000001] s example_state
    by simp
  show ?thesis
    using a b c d l s example_channel_init example_dm_init by simp
qed

text \<open>
  C5, as stated: every channel chat entity constructed at setup carries the transmission
  settings fetched for its channel. It is false: for the primary channel fetched with the
  key \<^verbatim>\<open>"AQ=="\<close> and uplink and downlink disabled, the entity is constructed with an empty
  key and uplink and downlink enabled.
\<close>

theorem fetched_settings_not_carried_counterexample:
  "map (transmission_settings \<circ> settings) (setup_channel_texts (async_setup_entry entry_example))
     = [(Some '''', Some True, Some True), (Some '''', Some True, Some True)]
   \<and> map (map_option transmission_settings \<circ> settings_key) channels_example
     = [Some (Some ''AQ=='', Some False, Some False), None,
        Some (Some ''c2VjcmV0'', Some True, Some False)]
   \<and> \<not> carries_settings_of channel_example (hd channels_example)"
  by (simp add: example_setup setup_channel_texts_def transmission_settings_def
        channels_example_def channel_example_def secondary_example_def carries_settings_of_def)

text \<open>
  C5, amended: when the setup completes, the channel chat entities it hands over are built,
  in order, from the channels whose role is not \<^verbatim>\<open>"DISABLED"\<close>: each has the index and the
  name fetched for its channel and the two flags of the channel's role; and each is
  constructed with the same settings, an empty pre-shared key with uplink and downlink
  enabled, whatever settings were fetched.
\<close>

theorem entity_snapshot_and_fixed_settings:
  "async_setup_entry entry = Inr es \<and>
   async_get_channels (runtime_client (entry_runtime_data entry)) = Inr channels \<longrightarrow>
     list_all2 built_from (channel_texts es)
       (filter (\<lambda>ch. role ch \<noteq> Some ''DISABLED'') channels) \<and>
     (\<forall>c \<in> set (channel_texts es).
        settings c = \<lparr>name_key = None, psk = Some '''', uplinkEnabled = Some True,
                      downlinkEnabled = Some True\<rparr>)"
  using async_setup_entry_built(1,2) [of entry es channels] by blast

theorem entity_snapshot_and_fixed_settings_witness:
  "async_setup_entry entry_example
       = Inr [ChannelText channel_example, ChannelText secondary_example,
              DirectMessageText dm_example]
   \<and> async_get_channels (runtime_client (entry_runtime_data entry_example)) = Inr channels_example
   \<and> built_from channel_example (channels_example ! 0)
   \<and> built_from secondary_example (channels_example ! 2)
   \<and> settings channel_example = \<lparr>name_key = None, psk = Some '''', uplinkEnabled = Some True,
                      downlinkEnabled = Some True\<rparr>
   \<and> settings secondary_example = \<lparr>name_key = None, psk = Some '''', uplinkEnabled = Some True,
                      downlinkEnabled = Some True\<rparr>"
proof -
  have f: "filter (\<lambda>ch. role ch \<noteq> Some ''DISABLED'') channels_example
      = [channels_example ! 0, channels_example ! 2]"
    by (simp add: channels_example_def)
  show ?thesis
    using entity_snapshot_and_fixed_settings [where entry = entry_example
        and es = "[ChannelText channel_example, ChannelText secondary_example,
              DirectMessageText dm_example]" and channels = channels_example]
      example_setup example_entry_channels
    by (simp add: f)
qed




end
